theory Spec2Isabelle
  imports Main "HOL-Library.Char_ord" "HOL-Library.List_Lexorder" "HOL-Library.Code_Target_Nat"
begin

section \<open>JavaScript string primitives used by the gateway\<close>

text \<open>
  Strings are lists of characters. The gateway only inspects host names, header names and
  request targets, which are ASCII, so a character is one unit as in JavaScript.
\<close>

definition startsWith :: "string \<Rightarrow> string \<Rightarrow> bool" where
  "startsWith s p = (take (length p) s = p)"

definition endsWith :: "string \<Rightarrow> string \<Rightarrow> bool" where
  "endsWith s t = (length t \<le> length s \<and> drop (length s - length t) s = t)"

text \<open>\<open>String.prototype.substring(n)\<close> for \<open>n \<ge> 0\<close>: past the end it is empty.\<close>

definition substring :: "string \<Rightarrow> nat \<Rightarrow> string" where
  "substring s n = drop n s"

definition lower_char :: "char \<Rightarrow> char" where
  "lower_char c =
     (if CHR ''A'' \<le> c \<and> c \<le> CHR ''Z'' then char_of (of_char c + (32::nat)) else c)"

definition toLowerCase :: "string \<Rightarrow> string" where
  "toLowerCase s = map lower_char s"

text \<open>\<open>Array.prototype.some\<close>: left to right, stopping at the first hit.\<close>

primrec array_some :: "('a \<Rightarrow> bool) \<Rightarrow> 'a list \<Rightarrow> bool" where
  "array_some P [] = False"
| "array_some P (x # xs) = (if P x then True else array_some P xs)"

definition is_digit :: "char \<Rightarrow> bool" where
  "is_digit c = (CHR ''0'' \<le> c \<and> c \<le> CHR ''9'')"

section \<open>The URL class of the platform\<close>

text \<open>
  The gateway builds every upstream address with \<open>new URL(input, base)\<close> and reads the
  getters \<open>hostname\<close>, \<open>host\<close>, \<open>protocol\<close> and \<open>toString()\<close>. The class belongs to the
  platform, not to the repository. It is written out here after the URL Standard for the
  inputs the gateway meets: the schemes \<open>http\<close>, \<open>https\<close>, \<open>ws\<close>, \<open>wss\<close> and \<open>ftp\<close>, and
  strings whose characters need no percent-encoding. Host names are lower-cased; a dotted
  quad or a bracketed IPv6 literal is kept as written (the standard would also bring
  shorthand forms of an address into canonical form). \<open>None\<close> stands for the
  \<open>TypeError\<close> that the constructor throws. An input with a scheme outside the five is
  not modelled and is given \<open>None\<close> as well; the guard refuses such an address either way,
  since it lets only \<open>http:\<close> and \<open>https:\<close> pass.
\<close>

record url =
  u_scheme :: string
  u_username :: string
  u_password :: string
  u_hostname :: string
  u_port :: "nat option"
  u_path :: "string list"
  u_query :: "string option"
  u_fragment :: "string option"

definition is_alpha :: "char \<Rightarrow> bool" where
  "is_alpha c = ((CHR ''a'' \<le> c \<and> c \<le> CHR ''z'') \<or> (CHR ''A'' \<le> c \<and> c \<le> CHR ''Z''))"

definition is_scheme_char :: "char \<Rightarrow> bool" where
  "is_scheme_char c = (is_alpha c \<or> is_digit c \<or> c = CHR ''+'' \<or> c = CHR ''-'' \<or> c = CHR ''.'')"

fun scan_scheme :: "string \<Rightarrow> string \<Rightarrow> (string \<times> string) option" where
  "scan_scheme acc [] = None"
| "scan_scheme acc (c # cs) =
     (if c = CHR '':'' then Some (rev acc, cs)
      else if is_scheme_char c then scan_scheme (lower_char c # acc) cs
      else None)"

text \<open>The scheme of an input, lower-cased, and what follows its colon.\<close>

definition split_scheme :: "string \<Rightarrow> (string \<times> string) option" where
  "split_scheme s =
     (case s of [] \<Rightarrow> None | c # _ \<Rightarrow> if is_alpha c then scan_scheme [] s else None)"

definition default_port :: "string \<Rightarrow> nat option" where
  "default_port s =
     (if s = ''ftp'' then Some 21
      else if s = ''http'' then Some 80
      else if s = ''https'' then Some 443
      else if s = ''ws'' then Some 80
      else if s = ''wss'' then Some 443
      else None)"

definition is_slash :: "char \<Rightarrow> bool" where
  "is_slash c = (c = CHR ''/'' \<or> c = CHR 0x5C)"

definition ends_authority :: "char \<Rightarrow> bool" where
  "ends_authority c = (is_slash c \<or> c = CHR ''?'' \<or> c = CHR ''#'')"

definition ends_path :: "char \<Rightarrow> bool" where
  "ends_path c = (c = CHR ''?'' \<or> c = CHR ''#'')"

subsection \<open>Decimal numbers\<close>

definition digit_val :: "char \<Rightarrow> nat" where
  "digit_val c = of_char c - 48"

definition parse_nat :: "string \<Rightarrow> nat" where
  "parse_nat s = foldl (\<lambda>n c. 10 * n + digit_val c) 0 s"

fun show_nat :: "nat \<Rightarrow> string" where
  "show_nat n =
     (if n < 10 then [char_of (48 + n)]
      else show_nat (n div 10) @ [char_of (48 + n mod 10)])"

declare show_nat.simps [simp del]

subsection \<open>Authority\<close>

text \<open>
  The host runs to the first colon outside square brackets; what follows the colon is the
  port.
\<close>

fun scan_host :: "bool \<Rightarrow> string \<Rightarrow> string \<times> string option" where
  "scan_host b [] = ([], None)"
| "scan_host b (c # cs) =
     (if c = CHR '':'' \<and> \<not> b then ([], Some cs)
      else (case scan_host (if c = CHR ''['' then True else if c = CHR '']'' then False else b) cs
            of (h, p) \<Rightarrow> (c # h, p)))"

text \<open>Credentials end at the last \<open>@\<close> of the authority; the password starts at the first colon.\<close>

definition split_userinfo :: "string \<Rightarrow> string \<times> string \<times> string" where
  "split_userinfo a =
     (if CHR ''@'' \<in> set a then
        (let hp = rev (takeWhile (\<lambda>c. c \<noteq> CHR ''@'') (rev a));
             ui = take (length a - length hp - 1) a
         in (takeWhile (\<lambda>c. c \<noteq> CHR '':'') ui,
             drop 1 (dropWhile (\<lambda>c. c \<noteq> CHR '':'') ui), hp))
      else ([], [], a))"

definition forbidden_host_char :: "char \<Rightarrow> bool" where
  "forbidden_host_char c =
     (c \<le> CHR 0x20 \<or> c = CHR 0x7F \<or> c = CHR 0x5C \<or> c \<in> set ''#%/:<>?@[]^|'')"

definition valid_host :: "string \<Rightarrow> bool" where
  "valid_host h =
     (h \<noteq> [] \<and>
      (if startsWith h ''['' then endsWith h '']''
       else \<not> array_some forbidden_host_char h))"

definition parse_authority ::
  "string \<Rightarrow> string \<Rightarrow> (string \<times> string \<times> string \<times> nat option) option" where
  "parse_authority sch a =
     (case split_userinfo a of (user, pw, hp) \<Rightarrow>
        (case scan_host False hp of (h, p) \<Rightarrow>
           if \<not> valid_host h then None
           else (case p of
                   None \<Rightarrow> Some (user, pw, toLowerCase h, None)
                 | Some ds \<Rightarrow>
                     if array_some (\<lambda>c. \<not> is_digit c) ds then None
                     else if ds = [] then Some (user, pw, toLowerCase h, None)
                     else if 65535 < parse_nat ds then None
                     else Some (user, pw, toLowerCase h,
                                if default_port sch = Some (parse_nat ds) then None
                                else Some (parse_nat ds)))))"

subsection \<open>Path, query and fragment\<close>

text \<open>The segments of a path: each ends at a slash (or backslash) or at the end.\<close>

fun split_slash :: "string \<Rightarrow> string \<Rightarrow> string list" where
  "split_slash acc [] = [rev acc]"
| "split_slash acc (c # cs) =
     (if is_slash c then rev acc # split_slash [] cs else split_slash (c # acc) cs)"

definition single_dot :: "string \<Rightarrow> bool" where
  "single_dot seg = (toLowerCase seg \<in> {''.'', ''%2e''})"

definition double_dot :: "string \<Rightarrow> bool" where
  "double_dot seg = (toLowerCase seg \<in> {''..'', ''.%2e'', ''%2e.'', ''%2e%2e''})"

definition shorten :: "string list \<Rightarrow> string list" where
  "shorten p = butlast p"

text \<open>
  The path state: a double-dot segment removes the last segment, a single-dot segment adds
  none, and either of them in last position leaves an empty last segment.
\<close>

fun add_segments :: "string list \<Rightarrow> string list \<Rightarrow> string list" where
  "add_segments p [] = p"
| "add_segments p (seg # segs) =
     add_segments
       (if double_dot seg then (if segs = [] then shorten p @ [[]] else shorten p)
        else if single_dot seg then (if segs = [] then p @ [[]] else p)
        else p @ [seg])
       segs"

definition parse_query_fragment :: "string \<Rightarrow> string option \<times> string option" where
  "parse_query_fragment s =
     (case s of
        [] \<Rightarrow> (None, None)
      | c # cs \<Rightarrow>
          if c = CHR ''?'' then
            (Some (takeWhile (\<lambda>d. d \<noteq> CHR ''#'') cs),
             (case dropWhile (\<lambda>d. d \<noteq> CHR ''#'') cs of [] \<Rightarrow> None | _ # f \<Rightarrow> Some f))
          else (None, Some cs))"

text \<open>
  From the path start state on: \<open>s\<close> is what is left of the input after the authority (or
  the whole reference, for a relative one), \<open>p0\<close> the path to append to.
\<close>

definition parse_path_on :: "url \<Rightarrow> string list \<Rightarrow> string \<Rightarrow> url" where
  "parse_path_on u p0 s =
     (let ps = takeWhile (\<lambda>c. \<not> ends_path c) s;
          rest = dropWhile (\<lambda>c. \<not> ends_path c) s;
          ps' = (case ps of [] \<Rightarrow> [] | c # cs \<Rightarrow> if is_slash c then cs else ps)
      in case parse_query_fragment rest of (q, f) \<Rightarrow>
           u\<lparr>u_path := add_segments p0 (split_slash [] ps'), u_query := q, u_fragment := f\<rparr>)"

definition parse_from_authority :: "string \<Rightarrow> string \<Rightarrow> url option" where
  "parse_from_authority sch s =
     (let s' = dropWhile is_slash s;
          a = takeWhile (\<lambda>c. \<not> ends_authority c) s';
          rest = dropWhile (\<lambda>c. \<not> ends_authority c) s'
      in case parse_authority sch a of
           None \<Rightarrow> None
         | Some (user, pw, h, p) \<Rightarrow>
             Some (parse_path_on
                     \<lparr>u_scheme = sch, u_username = user, u_password = pw, u_hostname = h,
                      u_port = p, u_path = [], u_query = None, u_fragment = None\<rparr> [] rest))"

text \<open>
  A reference resolved against the base (relative state): two leading slashes open an
  authority, one slash a path from the root; a query or fragment alone keeps the base's
  path; anything else replaces the last segment of the base's path.
\<close>

definition parse_relative :: "url \<Rightarrow> string \<Rightarrow> url option" where
  "parse_relative b s =
     (case s of
        [] \<Rightarrow> Some (b\<lparr>u_fragment := None\<rparr>)
      | c # cs \<Rightarrow>
          if is_slash c then
            (case cs of
               d # _ \<Rightarrow>
                 if is_slash d then parse_from_authority (u_scheme b) s
                 else Some (parse_path_on b [] s)
             | [] \<Rightarrow> Some (parse_path_on b [] s))
          else if c = CHR ''?'' then
            (case parse_query_fragment s of (q, f) \<Rightarrow> Some (b\<lparr>u_query := q, u_fragment := f\<rparr>))
          else if c = CHR ''#'' then Some (b\<lparr>u_fragment := Some cs\<rparr>)
          else Some (parse_path_on b (shorten (u_path b)) (CHR ''/'' # s)))"

definition parse_url :: "string \<Rightarrow> url option \<Rightarrow> url option" where
  "parse_url s base =
     (case split_scheme s of
        Some (sch, rest) \<Rightarrow>
          if default_port sch = None then None
          else (case base of
                  Some b \<Rightarrow>
                    if u_scheme b = sch then parse_relative b rest
                    else parse_from_authority sch rest
                | None \<Rightarrow> parse_from_authority sch rest)
      | None \<Rightarrow>
          (case base of
             None \<Rightarrow> None
           | Some b \<Rightarrow> parse_relative b s))"

text \<open>\<open>new URL(input)\<close> and \<open>new URL(input, base)\<close>.\<close>

definition new_URL :: "string \<Rightarrow> url option" where
  "new_URL s = parse_url s None"

definition new_URL_base :: "string \<Rightarrow> string \<Rightarrow> url option" where
  "new_URL_base s base =
     (case parse_url base None of None \<Rightarrow> None | Some b \<Rightarrow> parse_url s (Some b))"

subsection \<open>Getters and serialisation\<close>

definition protocol :: "url \<Rightarrow> string" where
  "protocol u = u_scheme u @ '':''"

definition host :: "url \<Rightarrow> string" where
  "host u = u_hostname u @ (case u_port u of None \<Rightarrow> [] | Some p \<Rightarrow> '':'' @ show_nat p)"

definition pathname :: "url \<Rightarrow> string" where
  "pathname u = concat (map (\<lambda>seg. CHR ''/'' # seg) (u_path u))"

definition href :: "url \<Rightarrow> string" where
  "href u =
     u_scheme u @ ''://'' @
     (if u_username u = [] \<and> u_password u = [] then []
      else u_username u @ (if u_password u = [] then [] else '':'' @ u_password u) @ ''@'') @
     host u @ pathname u @
     (case u_query u of None \<Rightarrow> [] | Some q \<Rightarrow> CHR ''?'' # q) @
     (case u_fragment u of None \<Rightarrow> [] | Some f \<Rightarrow> CHR ''#'' # f)"

section \<open>Security guard (security.ts)\<close>

subsection \<open>The private-address patterns\<close>

text \<open>
  Each entry of \<open>PRIVATE_IP_RANGES\<close> is a regular expression anchored at the start of the
  string; \<open>test\<close> is written out per pattern, in the order of the table. The two last
  patterns carry the flag \<open>i\<close> and are matched on the lower-cased input.
\<close>

text \<open>The pattern \<open>^172\.(1[6-9]|2\d|3[01])\.\<close>.\<close>

definition class_b_private :: "string \<Rightarrow> bool" where
  "class_b_private ip =
     (startsWith ip ''172.'' \<and>
      (case drop 4 ip of
         a # b # d # _ \<Rightarrow>
           d = CHR ''.'' \<and>
           ((a = CHR ''1'' \<and> CHR ''6'' \<le> b \<and> b \<le> CHR ''9'') \<or>
            (a = CHR ''2'' \<and> is_digit b) \<or>
            (a = CHR ''3'' \<and> (b = CHR ''0'' \<or> b = CHR ''1'')))
       | _ \<Rightarrow> False))"

definition PRIVATE_IP_RANGES :: "(string \<Rightarrow> bool) list" where
  "PRIVATE_IP_RANGES =
     [\<lambda>ip. startsWith ip ''127.'',
      \<lambda>ip. startsWith ip ''10.'',
      class_b_private,
      \<lambda>ip. startsWith ip ''192.168.'',
      \<lambda>ip. startsWith ip ''169.254.'',
      \<lambda>ip. startsWith ip ''0.'',
      \<lambda>ip. ip = ''::1'',
      \<lambda>ip. startsWith (toLowerCase ip) ''fc00:'',
      \<lambda>ip. startsWith (toLowerCase ip) ''fe80:'']"

definition isPrivateIP :: "string \<Rightarrow> bool" where
  "isPrivateIP ip = array_some (\<lambda>range. range ip) PRIVATE_IP_RANGES"

subsection \<open>The upstream allowlist\<close>

definition isAllowedUpstream :: "string \<Rightarrow> string list \<Rightarrow> bool" where
  "isAllowedUpstream hostname allowedUpstreams =
     (if length allowedUpstreams = 0 then True
      else array_some (\<lambda>allowed. hostname = allowed \<or> endsWith hostname (''.'' @ allowed))
             allowedUpstreams)"

subsection \<open>Validation of an upstream address\<close>

record SecurityConfig =
  allowedUpstreams :: "string list"
  blockPrivateIPs :: bool
  followRedirects :: bool
  maxPayloadLogSize :: nat

text \<open>The result object \<open>{ valid, reason? }\<close>.\<close>

record validation =
  valid :: bool
  reason :: "string option"

definition dq :: string where
  "dq = [CHR 0x22]"

definition validateUpstreamUrl :: "string \<Rightarrow> SecurityConfig \<Rightarrow> validation" where
  "validateUpstreamUrl urlString security =
     (case new_URL urlString of
        None \<Rightarrow> \<lparr>valid = False, reason = Some (''Invalid URL: '' @ urlString)\<rparr>
      | Some parsed \<Rightarrow>
          if \<not> isAllowedUpstream (u_hostname parsed) (allowedUpstreams security) then
            \<lparr>valid = False,
             reason = Some (''Upstream '' @ dq @ u_hostname parsed @ dq @
                            '' is not in the allowed upstreams list'')\<rparr>
          else if blockPrivateIPs security \<and> isPrivateIP (u_hostname parsed) then
            \<lparr>valid = False,
             reason = Some (''Upstream '' @ dq @ u_hostname parsed @ dq @
                            '' resolves to a private IP (blocked by security policy)'')\<rparr>
          else if protocol parsed \<notin> set [''http:'', ''https:''] then
            \<lparr>valid = False, reason = Some (''Unsupported protocol: '' @ protocol parsed)\<rparr>
          else \<lparr>valid = True, reason = None\<rparr>)"

text \<open>
  The check on the address built for one request: it must keep the host of the configured
  upstream and pass the policy again.
\<close>

definition validateRuntimeUrl :: "string \<Rightarrow> string \<Rightarrow> SecurityConfig \<Rightarrow> validation" where
  "validateRuntimeUrl constructedUrl originalUpstream security =
     (case new_URL constructedUrl of
        None \<Rightarrow> \<lparr>valid = False, reason = Some ''Failed to parse URL''\<rparr>
      | Some constructed \<Rightarrow>
          (case new_URL originalUpstream of
             None \<Rightarrow> \<lparr>valid = False, reason = Some ''Failed to parse URL''\<rparr>
           | Some original \<Rightarrow>
               if u_hostname constructed \<noteq> u_hostname original then
                 \<lparr>valid = False,
                  reason = Some (''Path traversal detected: constructed URL points to '' @ dq @
                                 u_hostname constructed @ dq @ '' instead of '' @ dq @
                                 u_hostname original @ dq)\<rparr>
               else validateUpstreamUrl constructedUrl security))"

section \<open>The Date type of the platform\<close>

text \<open>
  An instant is a number of milliseconds since the epoch. \<open>toISOString\<close> prints it in the
  calendar of the language standard (proleptic Gregorian, UTC): four digits for the years
  0000 to 9999, a sign and six digits for the others. \<open>getTime\<close> of \<open>new Date(text)\<close> reads
  such a text back; a text that is not of that form gives \<open>NaN\<close>, here \<open>None\<close>. The
  platform also reads other spellings of a date, which the gateway never writes; they are
  not modelled. Instants are taken within the range of the Date type.
\<close>

definition digit :: "int \<Rightarrow> char" where
  "digit n = char_of (48 + n)"

definition pad2 :: "int \<Rightarrow> string" where
  "pad2 n = [digit (n div 10 mod 10), digit (n mod 10)]"

definition pad3 :: "int \<Rightarrow> string" where
  "pad3 n = [digit (n div 100 mod 10), digit (n div 10 mod 10), digit (n mod 10)]"

definition pad4 :: "int \<Rightarrow> string" where
  "pad4 n = [digit (n div 1000 mod 10), digit (n div 100 mod 10), digit (n div 10 mod 10),
             digit (n mod 10)]"

definition pad6 :: "int \<Rightarrow> string" where
  "pad6 n = [digit (n div 100000 mod 10), digit (n div 10000 mod 10)] @ pad4 n"

text \<open>Year, month and day of a day number counted from 1970-01-01.\<close>

definition civil_from_days :: "int \<Rightarrow> int \<times> int \<times> int" where
  "civil_from_days z =
     (let z' = z + 719468;
          era = z' div 146097;
          doe = z' - era * 146097;
          yoe = (doe - doe div 1460 + doe div 36524 - doe div 146096) div 365;
          doy = doe - (365 * yoe + yoe div 4 - yoe div 100);
          mp = (5 * doy + 2) div 153;
          d = doy - (153 * mp + 2) div 5 + 1;
          m = (if mp < 10 then mp + 3 else mp - 9)
      in (yoe + era * 400 + (if m \<le> 2 then 1 else 0), m, d))"

text \<open>The day number of a year, month and day.\<close>

definition days_from_civil :: "int \<Rightarrow> int \<Rightarrow> int \<Rightarrow> int" where
  "days_from_civil y m d =
     (let y' = (if m \<le> 2 then y - 1 else y);
          era = y' div 400;
          yoe = y' - era * 400;
          doy = (153 * (if m > 2 then m - 3 else m + 9) + 2) div 5 + d - 1;
          doe = yoe * 365 + yoe div 4 - yoe div 100 + doy
      in era * 146097 + doe - 719468)"

definition show_year :: "int \<Rightarrow> string" where
  "show_year y =
     (if 0 \<le> y \<and> y \<le> 9999 then pad4 y
      else (if y < 0 then ''-'' else ''+'') @ pad6 \<bar>y\<bar>)"

definition toISOString :: "int \<Rightarrow> string" where
  "toISOString t =
     (let ms = t mod 86400000
      in case civil_from_days (t div 86400000) of (y, m, d) \<Rightarrow>
           show_year y @ ''-'' @ pad2 m @ ''-'' @ pad2 d @ ''T'' @
           pad2 (ms div 3600000) @ '':'' @ pad2 (ms div 60000 mod 60) @ '':'' @
           pad2 (ms div 1000 mod 60) @ ''.'' @ pad3 (ms mod 1000) @ ''Z'')"

definition digits_val :: "string \<Rightarrow> int" where
  "digits_val s = foldl (\<lambda>n c. 10 * n + (of_char c - 48)) 0 s"

text \<open>
  The instant that the fields of a text \<open>YYYY-MM-DDTHH:mm:ss.sssZ\<close> (or with a signed
  six-digit year) denote, read by position.
\<close>

definition read_fields :: "string \<Rightarrow> int" where
  "read_fields s =
     (let signed = (case s of [] \<Rightarrow> False | c # _ \<Rightarrow> c = CHR ''+'' \<or> c = CHR ''-'');
          ylen = (if signed then 7 else 4);
          y = (if signed then
                 (if take 1 s = ''-'' then - digits_val (take 6 (drop 1 s))
                  else digits_val (take 6 (drop 1 s)))
               else digits_val (take 4 s));
          r = drop ylen s
      in (days_from_civil y (digits_val (take 2 (drop 1 r))) (digits_val (take 2 (drop 4 r))))
           * 86400000
         + digits_val (take 2 (drop 7 r)) * 3600000
         + digits_val (take 2 (drop 10 r)) * 60000
         + digits_val (take 2 (drop 13 r)) * 1000
         + digits_val (take 3 (drop 16 r)))"

text \<open>A text is read as an instant when it is the text that \<open>toISOString\<close> prints for it.\<close>

definition getTime :: "string \<Rightarrow> int option" where
  "getTime s = (if toISOString (read_fields s) = s then Some (read_fields s) else None)"

section \<open>Configuration and runtime types (types.ts)\<close>

datatype action = auto_approve | require_approval

record PolicyRule =
  match_method :: "string option"
  match_path :: "string option"
  rule_action :: action

datatype auth_kind = Bearer | Header | Query

record ServiceConfig =
  sc_upstream :: string
  sc_auth_type :: auth_kind
  sc_auth_token :: string
  sc_auth_headerName :: "string option"
  sc_auth_paramName :: "string option"
  sc_policy_default :: action
  sc_policy_rules :: "PolicyRule list option"
  sc_hostnames :: "string list option"

text \<open>
  \<open>services\<close> is an object used as a table: an association list in insertion order, read by
  key with \<open>map_of\<close> and walked with \<open>Object.entries\<close>.
\<close>

record Config =
  cfg_agentKey :: string
  cfg_services :: "(string \<times> ServiceConfig) list"
  cfg_security :: SecurityConfig
  cfg_logPayload :: bool
  cfg_adminEnabled :: bool

text \<open>
  The two times of an approval are numbers. A number read back from the store can be
  \<open>NaN\<close>, which is \<open>None\<close> here; every comparison with it is false.
\<close>

record Approval =
  ap_service :: string
  ap_approvedAt :: "int option"
  ap_expiresAt :: "int option"
  ap_approvedBy :: string

record AuditEntry =
  ae_timestamp :: string
  ae_service :: string
  ae_method :: string
  ae_path :: string
  ae_approved :: bool
  ae_responseStatus :: "nat option"
  ae_agentIp :: string
  ae_requestBody :: "string option"
  ae_responseBody :: "string option"

section \<open>Audit store (audit.ts)\<close>

text \<open>
  A row of the table \<open>approvals\<close>. The columns \<open>timestamp\<close> and \<open>expires_at\<close> are text, and the
  store compares them as text: byte by byte, a proper prefix first.
\<close>

record approval_row =
  row_id :: nat
  row_timestamp :: string
  row_service :: string
  row_approved_by :: string
  row_ttl_seconds :: int
  row_expires_at :: string
  row_revoked :: bool

text \<open>
  The two tables the gateway's pipeline writes. \<open>approvals_seq\<close> is the counter behind
  \<open>AUTOINCREMENT\<close>: the largest id handed out so far.
\<close>

record audit_db =
  requests :: "AuditEntry list"
  approvals :: "approval_row list"
  approvals_seq :: nat

text \<open>\<open>x || null\<close> on an optional string: the empty string is falsy.\<close>

definition or_null :: "string option \<Rightarrow> string option" where
  "or_null x = (case x of None \<Rightarrow> None | Some v \<Rightarrow> if v = [] then None else Some v)"

definition logRequest :: "AuditEntry \<Rightarrow> audit_db \<Rightarrow> audit_db" where
  "logRequest entry d =
     d\<lparr>requests := requests d @
          [entry\<lparr>ae_requestBody := or_null (ae_requestBody entry),
                 ae_responseBody := or_null (ae_responseBody entry)\<rparr>]\<rparr>"

definition logApproval :: "string \<Rightarrow> string \<Rightarrow> int \<Rightarrow> int \<Rightarrow> audit_db \<Rightarrow> audit_db" where
  "logApproval service approvedBy ttlSeconds now d =
     d\<lparr>approvals := approvals d @
          [\<lparr>row_id = approvals_seq d + 1, row_timestamp = toISOString now,
            row_service = service, row_approved_by = approvedBy, row_ttl_seconds = ttlSeconds,
            row_expires_at = toISOString (now + ttlSeconds * 1000), row_revoked = False\<rparr>],
       approvals_seq := approvals_seq d + 1\<rparr>"

text \<open>\<open>DELETE FROM approvals WHERE expires_at <= ?\<close>\<close>

definition delete_expired :: "string \<Rightarrow> approval_row list \<Rightarrow> approval_row list" where
  "delete_expired now rows = filter (\<lambda>r. \<not> row_expires_at r \<le> now) rows"

text \<open>\<open>SELECT ... WHERE expires_at > ? AND revoked = 0 ORDER BY id DESC\<close>\<close>

definition select_active :: "string \<Rightarrow> approval_row list \<Rightarrow> approval_row list" where
  "select_active now rows =
     rev (sort_key row_id (filter (\<lambda>r. row_expires_at r > now \<and> \<not> row_revoked r) rows))"

definition row_approval :: "approval_row \<Rightarrow> Approval" where
  "row_approval row =
     \<lparr>ap_service = row_service row, ap_approvedAt = getTime (row_timestamp row),
      ap_expiresAt = getTime (row_expires_at row), ap_approvedBy = row_approved_by row\<rparr>"

text \<open>The loop that keeps the first row of each service.\<close>

fun dedupe :: "string set \<Rightarrow> Approval list \<Rightarrow> approval_row list \<Rightarrow> Approval list" where
  "dedupe seen acc [] = acc"
| "dedupe seen acc (row # rows) =
     (if row_service row \<in> seen then dedupe seen acc rows
      else dedupe (insert (row_service row) seen) (acc @ [row_approval row]) rows)"

text \<open>\<open>now\<close> is the clock; the two statements get it as the text \<open>new Date().toISOString()\<close>.\<close>

definition getActiveApprovals :: "int \<Rightarrow> audit_db \<Rightarrow> Approval list \<times> audit_db" where
  "getActiveApprovals now d =
     (let d' = d\<lparr>approvals := delete_expired (toISOString now) (approvals d)\<rparr>
      in (dedupe {} [] (select_active (toISOString now) (approvals d')), d'))"

text \<open>\<open>UPDATE approvals SET revoked = 1 WHERE service = ? AND revoked = 0\<close>\<close>

definition revokeApprovalInDb :: "string \<Rightarrow> audit_db \<Rightarrow> audit_db" where
  "revokeApprovalInDb service d =
     d\<lparr>approvals :=
          map (\<lambda>r. if row_service r = service \<and> \<not> row_revoked r then r\<lparr>row_revoked := True\<rparr> else r)
            (approvals d)\<rparr>"

section \<open>Approval manager (approval.ts)\<close>

text \<open>
  What the gateway does to the world, in program order. Every write to the in-memory map
  and to the store, every call of the notifier's \<open>requestApproval\<close> (\<open>Prompt\<close>; the notifier
  sends the prompt unless it is unpaired) and every upstream call appends its entry to the
  journal of the state, so that the order of two effects of one operation can be read off.
\<close>

datatype effect =
    MapSet string Approval
  | MapDelete string
  | DbLogApproval string string int
  | DbRevoke string
  | DbDeleteExpired
  | DbLogRequest AuditEntry
  | Prompt string string string string string
  | UpstreamRequest string string "string \<rightharpoonup> string" string

record state =
  activeApprovals :: "string \<rightharpoonup> Approval"
  audit :: audit_db
  requestCounter :: nat
  journal :: "effect list"

definition map_set :: "string \<Rightarrow> Approval \<Rightarrow> state \<Rightarrow> state" where
  "map_set service approval st =
     st\<lparr>activeApprovals := (activeApprovals st)(service \<mapsto> approval),
        journal := journal st @ [MapSet service approval]\<rparr>"

definition map_delete :: "string \<Rightarrow> state \<Rightarrow> state" where
  "map_delete service st =
     st\<lparr>activeApprovals := (activeApprovals st)(service := None),
        journal := journal st @ [MapDelete service]\<rparr>"

definition audit_logApproval :: "string \<Rightarrow> string \<Rightarrow> int \<Rightarrow> int \<Rightarrow> state \<Rightarrow> state" where
  "audit_logApproval service approvedBy ttlSeconds now st =
     st\<lparr>audit := logApproval service approvedBy ttlSeconds now (audit st),
        journal := journal st @ [DbLogApproval service approvedBy ttlSeconds]\<rparr>"

definition audit_revokeApprovalInDb :: "string \<Rightarrow> state \<Rightarrow> state" where
  "audit_revokeApprovalInDb service st =
     st\<lparr>audit := revokeApprovalInDb service (audit st),
        journal := journal st @ [DbRevoke service]\<rparr>"

definition audit_logRequest :: "AuditEntry \<Rightarrow> state \<Rightarrow> state" where
  "audit_logRequest entry st =
     st\<lparr>audit := logRequest entry (audit st),
        journal := journal st @ [DbLogRequest entry]\<rparr>"

text \<open>The constructor's \<open>restoreApprovals\<close>: every saved approval goes into the map.\<close>

definition restoreApprovals :: "int \<Rightarrow> state \<Rightarrow> state" where
  "restoreApprovals now st =
     (case getActiveApprovals now (audit st) of (saved, d') \<Rightarrow>
        fold (\<lambda>approval. map_set (ap_service approval) approval) saved
          (st\<lparr>audit := d', journal := journal st @ [DbDeleteExpired]\<rparr>))"

text \<open>A fresh process over a persisted store: the map starts empty.\<close>

definition startup :: "int \<Rightarrow> audit_db \<Rightarrow> state" where
  "startup now d =
     restoreApprovals now
       \<lparr>activeApprovals = Map.empty, audit = d, requestCounter = 0, journal = []\<rparr>"

definition upper_char :: "char \<Rightarrow> char" where
  "upper_char c =
     (if CHR ''a'' \<le> c \<and> c \<le> CHR ''z'' then char_of (of_char c - (32::nat)) else c)"

definition toUpperCase :: "string \<Rightarrow> string" where
  "toUpperCase s = map upper_char s"

text \<open>An optional string in a condition: absent and empty are both falsy.\<close>

definition truthy :: "string option \<Rightarrow> bool" where
  "truthy x = (case x of None \<Rightarrow> False | Some v \<Rightarrow> v \<noteq> [])"

definition matchesRule :: "PolicyRule \<Rightarrow> string \<Rightarrow> string \<Rightarrow> bool" where
  "matchesRule rule method path =
     (if truthy (match_method rule) \<and>
         toUpperCase (the (match_method rule)) \<noteq> toUpperCase method then False
      else if truthy (match_path rule) \<and> \<not> startsWith path (the (match_path rule)) then False
      else True)"

fun first_rule :: "PolicyRule list \<Rightarrow> string \<Rightarrow> string \<Rightarrow> action option" where
  "first_rule [] method path = None"
| "first_rule (rule # rules) method path =
     (if matchesRule rule method path then Some (rule_action rule)
      else first_rule rules method path)"

definition getAction :: "ServiceConfig \<Rightarrow> string \<Rightarrow> string \<Rightarrow> action" where
  "getAction serviceConfig method path =
     (case sc_policy_rules serviceConfig of
        None \<Rightarrow> sc_policy_default serviceConfig
      | Some rules \<Rightarrow>
          (case first_rule rules method path of
             Some a \<Rightarrow> a
           | None \<Rightarrow> sc_policy_default serviceConfig))"

definition hasActiveApproval :: "string \<Rightarrow> int \<Rightarrow> state \<Rightarrow> bool \<times> state" where
  "hasActiveApproval service now st =
     (case activeApprovals st service of
        None \<Rightarrow> (False, st)
      | Some approval \<Rightarrow>
          if (case ap_expiresAt approval of None \<Rightarrow> False | Some t \<Rightarrow> now > t)
          then (False, map_delete service st)
          else (True, st))"

text \<open>
  The value that \<open>Promise.race\<close> of the notifier's promise and the timer settles with. It
  comes from outside (the approver or the clock) and is an input of the model.
\<close>

record decision =
  d_approved :: bool
  d_ttlSeconds :: int
  d_approvedBy :: string

definition generateRequestId :: "int \<Rightarrow> state \<Rightarrow> string \<times> state" where
  "generateRequestId now st =
     (''req_'' @ show_nat (nat now) @ ''_'' @ show_nat (requestCounter st + 1),
      st\<lparr>requestCounter := requestCounter st + 1\<rparr>)"

text \<open>
  \<open>now\<close> is the clock when the request is checked, \<open>now'\<close> when the race has settled.
\<close>

definition checkApproval ::
  "string \<Rightarrow> ServiceConfig \<Rightarrow> string \<Rightarrow> string \<Rightarrow> string \<Rightarrow> int \<Rightarrow> int \<Rightarrow> decision \<Rightarrow> state
     \<Rightarrow> bool \<times> state" where
  "checkApproval service serviceConfig method path agentIp now now' result st =
     (if getAction serviceConfig method path = auto_approve then (True, st)
      else
        (case hasActiveApproval service now st of (active, st1) \<Rightarrow>
           if active then (True, st1)
           else
             (case generateRequestId now st1 of (requestId, st2) \<Rightarrow>
                (let st3 = st2\<lparr>journal := journal st2 @
                                  [Prompt requestId service method path agentIp]\<rparr>
                 in if d_approved result then
                      (let approval =
                             \<lparr>ap_service = service, ap_approvedAt = Some now',
                              ap_expiresAt = Some (now' + d_ttlSeconds result * 1000),
                              ap_approvedBy = d_approvedBy result\<rparr>
                       in (True,
                           audit_logApproval service (d_approvedBy result) (d_ttlSeconds result) now'
                             (map_set service approval st3)))
                    else (False, st3)))))"

definition revokeApproval :: "string \<Rightarrow> state \<Rightarrow> bool \<times> state" where
  "revokeApproval service st =
     (if activeApprovals st service \<noteq> None then
        (True, audit_revokeApprovalInDb service (map_delete service st))
      else (False, st))"

section \<open>The grants a restart should find\<close>

text \<open>
  The view of the persisted approvals that the specification describes, written after its
  words and not after the code: a row counts when it is not expired and not revoked, and
  of the rows of one service the newest, the one with the largest id, gives the grant.
  Expiry is judged as the store judges it, on the text of the column against the text of
  the clock. The grant of a row has the row's service and approver, and for its two times
  the instants that the two texts of the row denote.
\<close>

definition live :: "int \<Rightarrow> approval_row \<Rightarrow> bool" where
  "live now r = (toISOString now < row_expires_at r \<and> \<not> row_revoked r)"

definition newer :: "approval_row \<Rightarrow> approval_row \<Rightarrow> approval_row" where
  "newer r best = (if row_id best < row_id r then r else best)"

definition grant_of :: "approval_row \<Rightarrow> Approval" where
  "grant_of r =
     \<lparr>ap_service = row_service r, ap_approvedAt = getTime (row_timestamp r),
      ap_expiresAt = getTime (row_expires_at r), ap_approvedBy = row_approved_by r\<rparr>"

definition grants_view :: "int \<Rightarrow> approval_row list \<Rightarrow> (string \<rightharpoonup> Approval)" where
  "grants_view now rows s =
     (case filter (\<lambda>r. row_service r = s \<and> live now r) rows of
        [] \<Rightarrow> None
      | c # cs \<Rightarrow> Some (grant_of (fold newer cs c)))"

text \<open>
  A store as a run of the gateway leaves it. On 2026-01-01 \<open>ann\<close> approves \<open>gh\<close> for an hour
  at 10:00 and the approval is revoked; two requests for \<open>gh\<close> then wait at once, \<open>bob\<close>
  approves one for 24 hours at 12:00 and \<open>cy\<close> the other for 15 minutes a minute later;
  \<open>ann\<close> approves \<open>oa\<close> once at 12:02, and \<open>dan\<close> approves \<open>sl\<close> for 8 hours at 12:03.
\<close>

definition empty_db :: audit_db where
  "empty_db = \<lparr>requests = [], approvals = [], approvals_seq = 0\<rparr>"

definition db0 :: audit_db where
  "db0 =
     logApproval ''sl'' ''dan'' 28800 1767268980000
       (logApproval ''oa'' ''ann'' 1 1767268920000
          (logApproval ''gh'' ''cy'' 900 1767268860000
             (logApproval ''gh'' ''bob'' 86400 1767268800000
                (revokeApprovalInDb ''gh''
                   (logApproval ''gh'' ''ann'' 3600 1767261600000 empty_db)))))"

text \<open>The clock of a restart at 12:10 of that day, and of one at 12:20.\<close>

definition t_restart :: int where
  "t_restart = 1767269400000"

definition t_later :: int where
  "t_later = 1767270000000"

section \<open>Proxy engine (proxy.ts)\<close>

subsection \<open>Requests, responses and the environment\<close>

text \<open>A header value of the platform: one string, or several (only \<open>set-cookie\<close>).\<close>

datatype header_value = Str string | Arr "string list"

text \<open>
  The request as the router and the handlers read it. Three fields are what the framework
  derives from the request target: \<open>req_pathname\<close> is the path the router matches (the
  target without its query), \<open>req_service\<close> is \<open>req.params['service']\<close> on the routes \<open>/:service\<close>
  and \<open>/:service/*\<close> (the first path segment, percent-decoded), and \<open>req_param_error\<close> says
  that this segment cannot be decoded, in which case the router answers 400 itself and runs
  no handler. \<open>req_ip\<close> is the agent address
  \<open>req.ip || req.socket.remoteAddress || 'unknown'\<close>.
\<close>

record request =
  req_method :: string
  req_originalUrl :: string
  req_pathname :: string
  req_service :: string
  req_param_error :: bool
  req_headers :: "(string \<times> header_value) list"
  req_ip :: string
  req_body :: string

text \<open>
  What is left on the inbound connection: \<open>res.status(n).json({error})\<close>, the upstream
  response passed through, nothing, when an exception leaves the handler, the router's own
  error page, the data of an introspection endpoint, or whatever the admin router does,
  which is not modelled.
\<close>

datatype response =
    Json nat string
  | Piped nat "(string \<times> header_value) list" string
  | Threw
  | ErrorPage nat
  | Introspection string
  | AdminSurface

text \<open>
  What the upstream call comes to: \<open>transport.request\<close> throws at once, the request emits
  \<open>error\<close>, or a response arrives with status, headers and body.
\<close>

datatype upstream_result =
    RequestThrew string
  | TransportError string
  | Response nat "(string \<times> header_value) list" string

text \<open>
  The inputs that come from outside during one request: the clock at the three places
  where it is read, the outcome of the approval race, and the upstream's answer.
\<close>

record env =
  t_check :: int
  t_decided :: int
  t_done :: int
  race_result :: decision
  upstream_reply :: upstream_result

definition hv_truthy :: "header_value option \<Rightarrow> bool" where
  "hv_truthy x =
     (case x of None \<Rightarrow> False | Some (Str v) \<Rightarrow> v \<noteq> [] | Some (Arr _) \<Rightarrow> True)"

text \<open>\<open>a || b\<close> on two header lookups.\<close>

definition js_or :: "header_value option \<Rightarrow> header_value option \<Rightarrow> header_value option" where
  "js_or a b = (if hv_truthy a then a else b)"

definition req_header :: "request \<Rightarrow> string \<Rightarrow> header_value option" where
  "req_header req name = map_of (req_headers req) name"

text \<open>The agent secret as both handlers read it: the canonical header, else the legacy one.\<close>

definition agentKey_of :: "request \<Rightarrow> header_value option" where
  "agentKey_of req = js_or (req_header req ''x-clawguard-key'') (req_header req ''x-agentgate-key'')"

fun join_comma :: "string list \<Rightarrow> string" where
  "join_comma [] = []"
| "join_comma [v] = v"
| "join_comma (v # vs) = v @ '', '' @ join_comma vs"

definition hv_string :: "header_value \<Rightarrow> string" where
  "hv_string v = (case v of Str s \<Rightarrow> s | Arr vs \<Rightarrow> join_comma vs)"

subsection \<open>Header shaping and credential injection\<close>

text \<open>The loop over \<open>Object.entries(req.headers)\<close> that fills \<open>forwardHeaders\<close>.\<close>

fun copy_headers :: "(string \<times> header_value) list \<Rightarrow> (string \<rightharpoonup> string) \<Rightarrow> (string \<rightharpoonup> string)" where
  "copy_headers [] fh = fh"
| "copy_headers ((key, v) # rest) fh =
     (let lower = toLowerCase key
      in if startsWith lower ''x-clawguard'' then copy_headers rest fh
         else if startsWith lower ''x-agentgate'' then copy_headers rest fh
         else if lower = ''host'' then copy_headers rest fh
         else copy_headers rest (fh(key \<mapsto> hv_string v)))"

text \<open>
  \<open>searchParams.set(name, value)\<close>: the first pair of that name takes the value, later ones
  go, and a missing name is appended. Names and values are taken to consist of characters
  that the form encoding leaves alone.
\<close>

fun split_on :: "char \<Rightarrow> string \<Rightarrow> string \<Rightarrow> string list" where
  "split_on sep acc [] = [rev acc]"
| "split_on sep acc (c # cs) =
     (if c = sep then rev acc # split_on sep [] cs else split_on sep (c # acc) cs)"

definition parse_pairs :: "string \<Rightarrow> (string \<times> string) list" where
  "parse_pairs q =
     map (\<lambda>p. (takeWhile (\<lambda>c. c \<noteq> CHR ''='') p, drop 1 (dropWhile (\<lambda>c. c \<noteq> CHR ''='') p)))
       (filter (\<lambda>p. p \<noteq> []) (split_on CHR ''&'' [] q))"

fun set_pair :: "string \<Rightarrow> string \<Rightarrow> (string \<times> string) list \<Rightarrow> (string \<times> string) list" where
  "set_pair name v [] = [(name, v)]"
| "set_pair name v ((k, w) # rest) =
     (if k = name then (name, v) # filter (\<lambda>p. fst p \<noteq> name) rest
      else (k, w) # set_pair name v rest)"

fun join_pairs :: "(string \<times> string) list \<Rightarrow> string" where
  "join_pairs [] = []"
| "join_pairs [(k, v)] = k @ ''='' @ v"
| "join_pairs ((k, v) # rest) = k @ ''='' @ v @ ''&'' @ join_pairs rest"

definition searchParams_set :: "string \<Rightarrow> string \<Rightarrow> url \<Rightarrow> url" where
  "searchParams_set name v u =
     u\<lparr>u_query :=
         Some (join_pairs (set_pair name v
                 (parse_pairs (case u_query u of None \<Rightarrow> [] | Some q \<Rightarrow> q))))\<rparr>"

text \<open>The three recipes of \<open>Inject auth\<close>, on the pair of \<open>forwardHeaders\<close> and \<open>upstreamUrl\<close>.\<close>

definition inject_auth ::
  "ServiceConfig \<Rightarrow> (string \<rightharpoonup> string) \<times> url \<Rightarrow> (string \<rightharpoonup> string) \<times> url" where
  "inject_auth serviceConfig x =
     (case x of (fh, upstreamUrl) \<Rightarrow>
        if sc_auth_type serviceConfig = Bearer then
          (fh(''authorization'' \<mapsto> ''Bearer '' @ sc_auth_token serviceConfig), upstreamUrl)
        else if sc_auth_type serviceConfig = Header \<and> truthy (sc_auth_headerName serviceConfig) then
          (fh(the (sc_auth_headerName serviceConfig) \<mapsto> sc_auth_token serviceConfig), upstreamUrl)
        else if sc_auth_type serviceConfig = Query \<and> truthy (sc_auth_paramName serviceConfig) then
          (fh, searchParams_set (the (sc_auth_paramName serviceConfig))
                 (sc_auth_token serviceConfig) upstreamUrl)
        else (fh, upstreamUrl))"

text \<open>
  The headers and the address of the upstream request, as both handlers build them: copy,
  inject, then set \<open>host\<close>.
\<close>

definition shape_request ::
  "ServiceConfig \<Rightarrow> request \<Rightarrow> url \<Rightarrow> (string \<rightharpoonup> string) \<times> url" where
  "shape_request serviceConfig req upstreamUrl0 =
     (case inject_auth serviceConfig (copy_headers (req_headers req) Map.empty, upstreamUrl0)
      of (fh, upstreamUrl) \<Rightarrow> (fh(''host'' \<mapsto> host upstreamUrl), upstreamUrl))"

definition forwardHeaders :: "ServiceConfig \<Rightarrow> request \<Rightarrow> url \<Rightarrow> (string \<rightharpoonup> string)" where
  "forwardHeaders serviceConfig req upstreamUrl0 = fst (shape_request serviceConfig req upstreamUrl0)"

subsection \<open>Payload capture\<close>

definition max_size :: "Config \<Rightarrow> nat" where
  "max_size config =
     (if maxPayloadLogSize (cfg_security config) = 0 then 10240
      else maxPayloadLogSize (cfg_security config))"

text \<open>The path-prefix handler reports the full length in the suffix, the host handler does not.\<close>

definition clip_total :: "Config \<Rightarrow> string \<Rightarrow> string" where
  "clip_total config bodyStr =
     (if length bodyStr > max_size config then
        take (max_size config) bodyStr @
          ''... [truncated, '' @ show_nat (length bodyStr) @ '' bytes total]''
      else bodyStr)"

definition clip_plain :: "Config \<Rightarrow> string \<Rightarrow> string" where
  "clip_plain config bodyStr =
     (if length bodyStr > max_size config then take (max_size config) bodyStr @ ''... [truncated]''
      else bodyStr)"

definition capture :: "Config \<Rightarrow> (string \<Rightarrow> string) \<Rightarrow> string \<Rightarrow> string option" where
  "capture config clip body =
     (if cfg_logPayload config \<and> body \<noteq> [] then Some (clip body) else None)"

definition audit_entry ::
  "int \<Rightarrow> string \<Rightarrow> request \<Rightarrow> string \<Rightarrow> bool \<Rightarrow> nat \<Rightarrow> string option \<Rightarrow> string option
     \<Rightarrow> AuditEntry" where
  "audit_entry t serviceName req upstreamPath ok status reqBody resBody =
     \<lparr>ae_timestamp = toISOString t, ae_service = serviceName, ae_method = req_method req,
      ae_path = upstreamPath, ae_approved = ok, ae_responseStatus = Some status,
      ae_agentIp = req_ip req, ae_requestBody = reqBody, ae_responseBody = resBody\<rparr>"

definition upstream_call :: "request \<Rightarrow> (string \<rightharpoonup> string) \<times> url \<Rightarrow> state \<Rightarrow> state" where
  "upstream_call req x st =
     st\<lparr>journal := journal st @
          [UpstreamRequest (href (snd x)) (req_method req) (fst x) (req_body req)]\<rparr>"

text \<open>The response passed through: status (502 when there is none) and the truthy headers.\<close>

definition pass_through :: "nat \<Rightarrow> (string \<times> header_value) list \<Rightarrow> string \<Rightarrow> response" where
  "pass_through statusCode hs body =
     Piped (if statusCode = 0 then 502 else statusCode)
       (filter (\<lambda>p. hv_truthy (Some (snd p))) hs) body"

subsection \<open>Path-prefix routing\<close>

text \<open>The upstream path: the request target without the \<open>/<service>\<close> prefix, or \<open>/\<close>.\<close>

definition upstreamPath_of :: "string \<Rightarrow> request \<Rightarrow> string" where
  "upstreamPath_of serviceName req =
     (let prefixLen = length (''/'' @ serviceName);
          rest = substring (req_originalUrl req) prefixLen
      in if rest = [] then ''/'' else rest)"

definition forward_proxy ::
  "Config \<Rightarrow> string \<Rightarrow> ServiceConfig \<Rightarrow> request \<Rightarrow> string \<Rightarrow> url \<Rightarrow> env \<Rightarrow> state
     \<Rightarrow> response \<times> state" where
  "forward_proxy config serviceName serviceConfig req upstreamPath upstreamUrl0 e st =
     (let shaped = shape_request serviceConfig req upstreamUrl0;
          requestBodyLog = capture config (clip_total config) (req_body req)
      in case upstream_reply e of
           RequestThrew message \<Rightarrow> (Json 500 message, st)
         | TransportError message \<Rightarrow>
             (Json 502 (''Upstream error: '' @ message),
              audit_logRequest
                (audit_entry (t_done e) serviceName req upstreamPath True 502 requestBodyLog None)
                (upstream_call req shaped st))
         | Response statusCode hs body \<Rightarrow>
             (let st1 = upstream_call req shaped st;
                  location = map_of hs ''location'';
                  done =
                    (pass_through statusCode hs body,
                     audit_logRequest
                       (audit_entry (t_done e) serviceName req upstreamPath True statusCode
                          requestBodyLog (capture config (clip_total config) body))
                       st1)
              in if \<not> followRedirects (cfg_security config) \<and> statusCode \<noteq> 0 \<and>
                    statusCode \<ge> 300 \<and> statusCode < 400 \<and> hv_truthy location
                 then
                   (case new_URL_base (hv_string (the location)) (href (snd shaped)) of
                      None \<Rightarrow> (Threw, st1)
                    | Some target \<Rightarrow>
                        if \<not> valid (validateRuntimeUrl (href target) (sc_upstream serviceConfig)
                                       (cfg_security config))
                        then
                          (Json 403 ''Redirect blocked by security policy'',
                           audit_logRequest
                             (audit_entry (t_done e) serviceName req upstreamPath True 403
                                requestBodyLog None)
                             st1)
                        else done)
                 else done))"

text \<open>
  \<open>config.services[serviceName]\<close> is a property read on a plain object: it finds a configured
  service under that name, or failing that a member that every object inherits.
\<close>

datatype 'a property = Own 'a | Inherited | Undefined

definition object_prototype_members :: "string list" where
  "object_prototype_members =
     [''constructor'', ''hasOwnProperty'', ''isPrototypeOf'', ''propertyIsEnumerable'',
      ''toLocaleString'', ''toString'', ''valueOf'', ''__defineGetter__'', ''__defineSetter__'',
      ''__lookupGetter__'', ''__lookupSetter__'', ''__proto__'']"

definition services_get :: "Config \<Rightarrow> string \<Rightarrow> ServiceConfig property" where
  "services_get config name =
     (case map_of (cfg_services config) name of
        Some serviceConfig \<Rightarrow> Own serviceConfig
      | None \<Rightarrow> if name \<in> set object_prototype_members then Inherited else Undefined)"

text \<open>
  The handler. An inherited member is not \<open>undefined\<close>, so it passes the test for an
  unknown service; it has no \<open>upstream\<close>, so the address is then built without a base, and
  the guard, which cannot parse the missing upstream, refuses what was built.
\<close>

definition handleProxy :: "Config \<Rightarrow> request \<Rightarrow> env \<Rightarrow> state \<Rightarrow> response \<times> state" where
  "handleProxy config req e st =
     (let serviceName = req_service req
      in if startsWith serviceName ''__'' then (Json 404 ''Not found'', st)
         else
           (case services_get config serviceName of
              Undefined \<Rightarrow> (Json 404 (''Unknown service: '' @ serviceName), st)
            | Inherited \<Rightarrow>
                if agentKey_of req \<noteq> Some (Str (cfg_agentKey config)) then
                  (Json 401 ''Invalid or missing X-ClawGuard-Key'', st)
                else
                  (let upstreamPath = upstreamPath_of serviceName req
                   in case new_URL upstreamPath of
                        None \<Rightarrow> (Threw, st)
                      | Some upstreamUrl \<Rightarrow>
                          (Json 403 ''Request blocked by security policy'',
                           audit_logRequest
                             (audit_entry (t_check e) serviceName req upstreamPath False 403 None None)
                             st))
            | Own serviceConfig \<Rightarrow>
                if agentKey_of req \<noteq> Some (Str (cfg_agentKey config)) then
                  (Json 401 ''Invalid or missing X-ClawGuard-Key'', st)
                else
                  (let upstreamPath = upstreamPath_of serviceName req
                   in case new_URL_base upstreamPath (sc_upstream serviceConfig) of
                        None \<Rightarrow> (Threw, st)
                      | Some upstreamUrl \<Rightarrow>
                          if \<not> valid (validateRuntimeUrl (href upstreamUrl)
                                         (sc_upstream serviceConfig) (cfg_security config))
                          then
                            (Json 403 ''Request blocked by security policy'',
                             audit_logRequest
                               (audit_entry (t_check e) serviceName req upstreamPath False 403 None None)
                               st)
                          else
                            (case checkApproval serviceName serviceConfig (req_method req)
                                    upstreamPath (req_ip req) (t_check e) (t_decided e)
                                    (race_result e) st
                             of (approved, st1) \<Rightarrow>
                                  if \<not> approved then
                                    (Json 403 ''Approval denied or timed out'',
                                     audit_logRequest
                                       (audit_entry (t_decided e) serviceName req upstreamPath False 403
                                          None None)
                                       st1)
                                  else forward_proxy config serviceName serviceConfig req
                                         upstreamPath upstreamUrl e st1))))"

subsection \<open>Host-header routing\<close>

text \<open>\<open>svc.hostnames?.some((h) => h === hostname)\<close> over the entries, first match wins.\<close>

fun find_by_host :: "string \<Rightarrow> (string \<times> ServiceConfig) list \<Rightarrow> (string \<times> ServiceConfig) option" where
  "find_by_host hostname [] = None"
| "find_by_host hostname ((name, svc) # rest) =
     (if (case sc_hostnames svc of None \<Rightarrow> False | Some hs \<Rightarrow> array_some (\<lambda>h. h = hostname) hs)
      then Some (name, svc)
      else find_by_host hostname rest)"

definition resolveServiceByHost ::
  "header_value option \<Rightarrow> (string \<times> ServiceConfig) list \<Rightarrow> (string \<times> ServiceConfig) option" where
  "resolveServiceByHost h svcs =
     (case h of
        Some (Str hst) \<Rightarrow>
          if hst = [] then None
          else find_by_host (takeWhile (\<lambda>c. c \<noteq> CHR '':'') hst) svcs
      | _ \<Rightarrow> None)"

definition forward_host ::
  "Config \<Rightarrow> string \<Rightarrow> ServiceConfig \<Rightarrow> request \<Rightarrow> string \<Rightarrow> url \<Rightarrow> env \<Rightarrow> state
     \<Rightarrow> response \<times> state" where
  "forward_host config serviceName serviceConfig req upstreamPath upstreamUrl0 e st =
     (let shaped = shape_request serviceConfig req upstreamUrl0;
          requestBodyLog = capture config (clip_plain config) (req_body req)
      in case upstream_reply e of
           RequestThrew message \<Rightarrow> (Json 500 message, st)
         | TransportError message \<Rightarrow>
             (Json 502 (''Upstream error: '' @ message),
              audit_logRequest
                (audit_entry (t_done e) serviceName req upstreamPath True 502 requestBodyLog None)
                (upstream_call req shaped st))
         | Response statusCode hs body \<Rightarrow>
             (pass_through statusCode hs body,
              audit_logRequest
                (audit_entry (t_done e) serviceName req upstreamPath True statusCode
                   requestBodyLog (capture config (clip_plain config) body))
                (upstream_call req shaped st)))"

definition handleHostProxy :: "Config \<Rightarrow> request \<Rightarrow> env \<Rightarrow> state \<Rightarrow> response \<times> state" where
  "handleHostProxy config req e st =
     (case resolveServiceByHost (req_header req ''host'') (cfg_services config) of
        None \<Rightarrow>
          (Json 404
             ''Unknown host. Configure hostnames in service config for host-based routing.'', st)
      | Some (serviceName, serviceConfig) \<Rightarrow>
          if agentKey_of req \<noteq> Some (Str (cfg_agentKey config)) then
            (Json 401 ''Invalid or missing X-ClawGuard-Key'', st)
          else
            (let upstreamPath = (if req_originalUrl req = [] then ''/'' else req_originalUrl req)
             in case new_URL_base upstreamPath (sc_upstream serviceConfig) of
                  None \<Rightarrow> (Threw, st)
                | Some upstreamUrl \<Rightarrow>
                    if \<not> valid (validateRuntimeUrl (href upstreamUrl)
                                   (sc_upstream serviceConfig) (cfg_security config))
                    then (Json 403 ''Request blocked by security policy'', st)
                    else
                      (case checkApproval serviceName serviceConfig (req_method req)
                              upstreamPath (req_ip req) (t_check e) (t_decided e)
                              (race_result e) st
                       of (approved, st1) \<Rightarrow>
                            if \<not> approved then
                              (Json 403 ''Approval denied or timed out'',
                               audit_logRequest
                                 (audit_entry (t_decided e) serviceName req upstreamPath False 403
                                    None None)
                                 st1)
                            else forward_host config serviceName serviceConfig req
                                   upstreamPath upstreamUrl e st1)))"

subsection \<open>The route table\<close>

text \<open>
  \<open>createProxy\<close> registers, in this order: the admin router under \<open>/__admin\<close> when it is
  enabled, \<open>GET /__status\<close>, \<open>GET /__audit\<close>, the path-prefix handler on \<open>/:service\<close> and on
  \<open>/:service/*\<close>, and the host handler on \<open>*\<close>. The router takes the first route that
  matches the path, without regard to case and to one trailing slash, and no handler here
  passes a request on. So the path-prefix handler gets every path with a first segment,
  and the host handler gets the rest: the root and the paths that start with two slashes.
\<close>

definition matches_exact :: "string \<Rightarrow> string \<Rightarrow> bool" where
  "matches_exact route p = (toLowerCase p = route \<or> toLowerCase p = route @ ''/'')"

definition matches_mount :: "string \<Rightarrow> string \<Rightarrow> bool" where
  "matches_mount route p = (toLowerCase p = route \<or> startsWith (toLowerCase p) (route @ ''/''))"

definition has_service_segment :: "string \<Rightarrow> bool" where
  "has_service_segment p =
     (case p of c # d # _ \<Rightarrow> c = CHR ''/'' \<and> d \<noteq> CHR ''/'' | _ \<Rightarrow> False)"

definition is_get :: "request \<Rightarrow> bool" where
  "is_get req = (req_method req = ''GET'' \<or> req_method req = ''HEAD'')"

datatype route = AdminRoute | StatusRoute | AuditRoute | ServiceRoute | HostRoute

definition route_of :: "Config \<Rightarrow> request \<Rightarrow> route" where
  "route_of config req =
     (let p = req_pathname req
      in if cfg_adminEnabled config \<and> matches_mount ''/__admin'' p then AdminRoute
         else if is_get req \<and> matches_exact ''/__status'' p then StatusRoute
         else if is_get req \<and> matches_exact ''/__audit'' p then AuditRoute
         else if has_service_segment p then ServiceRoute
         else HostRoute)"

text \<open>The two introspection endpoints read the canonical header only.\<close>

definition introspect :: "Config \<Rightarrow> request \<Rightarrow> string \<Rightarrow> response" where
  "introspect config req what =
     (if req_header req ''x-clawguard-key'' \<noteq> Some (Str (cfg_agentKey config)) then
        Json 401 ''Invalid or missing X-ClawGuard-Key''
      else Introspection what)"

definition createProxy :: "Config \<Rightarrow> request \<Rightarrow> env \<Rightarrow> state \<Rightarrow> response \<times> state" where
  "createProxy config req e st =
     (case route_of config req of
        AdminRoute \<Rightarrow> (AdminSurface, st)
      | StatusRoute \<Rightarrow> (introspect config req ''status'', st)
      | AuditRoute \<Rightarrow> (introspect config req ''audit'', st)
      | ServiceRoute \<Rightarrow>
          if req_param_error req then (ErrorPage 400, st) else handleProxy config req e st
      | HostRoute \<Rightarrow> handleHostProxy config req e st)"

section \<open>Out-of-band notifier (telegram.ts) and the approval race\<close>

text \<open>
  The notifier and the timer of \<open>checkApproval\<close> run on one event loop. The model is a step
  function over the events that reach them: a request for approval, the deadline of one
  request, a tap on a button, and the end of that tap's handler once its two awaited calls
  to the chat service are through. The texts are modelled without their pictographs.
\<close>

record callback_query =
  q_id :: string
  q_data :: "string option"
  q_has_message :: bool
  q_chat :: string
  q_from :: string

text \<open>
  \<open>pendingCallbacks\<close> holds, under each request id, the closure that resolves the promise of
  that request; the model keeps the ids. \<open>promise\<close> is the settled value of the promise
  that \<open>requestApproval\<close> returned, \<open>race\<close> the settled value of \<open>Promise.race\<close> in
  \<open>checkApproval\<close>; a settled promise ignores later calls. \<open>calls\<close> lists the invocations
  of the callbacks, \<open>answers\<close> what \<open>answerCallbackQuery\<close> told the approver.
\<close>

record notifier =
  pairing_enabled :: bool
  paired_users :: "string set"
  paired :: bool
  pendingCallbacks :: "string set"
  pendingTexts :: "string \<rightharpoonup> string"
  promise :: "string \<rightharpoonup> decision"
  race :: "string \<rightharpoonup> decision"
  calls :: "(string \<times> decision) list"
  answers :: "(string \<times> string) list"
  edits :: "string list"

datatype event =
    RequestApproval string string
  | Deadline string
  | Tap callback_query
  | TapDone string

definition settle_race :: "string \<Rightarrow> decision \<Rightarrow> notifier \<Rightarrow> notifier" where
  "settle_race requestId d n =
     (if race n requestId = None then n\<lparr>race := (race n)(requestId \<mapsto> d)\<rparr> else n)"

definition resolve_promise :: "string \<Rightarrow> decision \<Rightarrow> notifier \<Rightarrow> notifier" where
  "resolve_promise requestId d n =
     (if promise n requestId = None
      then settle_race requestId d (n\<lparr>promise := (promise n)(requestId \<mapsto> d)\<rparr>)
      else n)"

text \<open>The callback stored by \<open>requestApproval\<close>: it resolves the promise of its request.\<close>

definition callback :: "string \<Rightarrow> bool \<Rightarrow> int \<Rightarrow> string \<Rightarrow> notifier \<Rightarrow> notifier" where
  "callback requestId ok ttlSeconds approvedBy n =
     (let d = \<lparr>d_approved = ok, d_ttlSeconds = ttlSeconds, d_approvedBy = approvedBy\<rparr>
      in resolve_promise requestId d (n\<lparr>calls := calls n @ [(requestId, d)]\<rparr>))"

definition requestApproval :: "string \<Rightarrow> string \<Rightarrow> notifier \<Rightarrow> notifier" where
  "requestApproval requestId text n =
     (if pairing_enabled n \<and> \<not> paired n then
        resolve_promise requestId
          \<lparr>d_approved = False, d_ttlSeconds = 0, d_approvedBy = ''unpaired''\<rparr> n
      else n\<lparr>pendingCallbacks := insert requestId (pendingCallbacks n),
             pendingTexts := (pendingTexts n)(requestId \<mapsto> text)\<rparr>)"

text \<open>The timer of \<open>checkApproval\<close>: it settles the race and touches nothing else.\<close>

definition deadline :: "string \<Rightarrow> notifier \<Rightarrow> notifier" where
  "deadline requestId n =
     settle_race requestId \<lparr>d_approved = False, d_ttlSeconds = 0, d_approvedBy = ''timeout''\<rparr> n"

definition answer :: "callback_query \<Rightarrow> string \<Rightarrow> notifier \<Rightarrow> notifier" where
  "answer q text n = n\<lparr>answers := answers n @ [(q_id q, text)]\<rparr>"

definition decide ::
  "callback_query \<Rightarrow> string \<Rightarrow> bool \<Rightarrow> int \<Rightarrow> string \<Rightarrow> string \<Rightarrow> notifier \<Rightarrow> notifier" where
  "decide q requestId ok ttlSeconds said verdict n =
     (let originalText = (case pendingTexts n requestId of None \<Rightarrow> [] | Some t \<Rightarrow> t);
          n1 = answer q said (callback requestId ok ttlSeconds (q_from q) n)
      in n1\<lparr>edits := edits n1 @ [originalText @ verdict @ q_from q]\<rparr>)"

text \<open>The \<open>callback_query\<close> handler up to the end of its \<open>switch\<close>.\<close>

definition tap :: "callback_query \<Rightarrow> notifier \<Rightarrow> notifier" where
  "tap q n =
     (if \<not> truthy (q_data q) \<or> \<not> q_has_message q then n
      else if pairing_enabled n \<and> q_chat q \<notin> paired_users n then
        answer q ''Not paired. Send /pair <secret> first.'' n
      else
        (case split_on CHR '':'' [] (the (q_data q)) of
           action # requestId # _ \<Rightarrow>
             if requestId \<notin> pendingCallbacks n then answer q ''Request expired'' n
             else if action = ''approve_once'' then
               decide q requestId True 1 ''Approved once'' '' Approved once by '' n
             else if action = ''approve_15m'' then
               decide q requestId True 900 ''Approved for 15 minutes'' '' Approved for 15min by '' n
             else if action = ''approve_1h'' then
               decide q requestId True 3600 ''Approved for 1 hour'' '' Approved for 1h by '' n
             else if action = ''approve_8h'' then
               decide q requestId True 28800 ''Approved for 8 hours'' '' Approved for 8h by '' n
             else if action = ''approve_24h'' then
               decide q requestId True 86400 ''Approved for 24 hours'' '' Approved for 24h by '' n
             else if action = ''deny'' then
               decide q requestId False 0 ''Denied'' '' Denied by '' n
             else n
         | _ \<Rightarrow> answer q ''Request expired'' n))"

text \<open>The two \<open>delete\<close> calls that end the handler.\<close>

definition tap_done :: "string \<Rightarrow> notifier \<Rightarrow> notifier" where
  "tap_done requestId n =
     n\<lparr>pendingCallbacks := pendingCallbacks n - {requestId},
       pendingTexts := (pendingTexts n)(requestId := None)\<rparr>"

fun step :: "event \<Rightarrow> notifier \<Rightarrow> notifier" where
  "step (RequestApproval requestId text) n = requestApproval requestId text n"
| "step (Deadline requestId) n = deadline requestId n"
| "step (Tap q) n = tap q n"
| "step (TapDone requestId) n = tap_done requestId n"

definition run :: "event list \<Rightarrow> notifier \<Rightarrow> notifier" where
  "run evs n = fold step evs n"

definition notifier0 :: notifier where
  "notifier0 =
     \<lparr>pairing_enabled = True, paired_users = {''42''}, paired = True,
      pendingCallbacks = {}, pendingTexts = Map.empty, promise = Map.empty, race = Map.empty,
      calls = [], answers = [], edits = []\<rparr>"

definition tap_1h :: callback_query where
  "tap_1h = \<lparr>q_id = ''q1'', q_data = Some ''approve_1h:req_1000_1'', q_has_message = True,
             q_chat = ''42'', q_from = ''ann''\<rparr>"

section \<open>Concrete configuration, requests and states\<close>

definition sec0 :: SecurityConfig where
  "sec0 = \<lparr>allowedUpstreams = [''u.example''], blockPrivateIPs = True,
           followRedirects = False, maxPayloadLogSize = 0\<rparr>"

text \<open>
  A service \<open>svc\<close> with the upstream base \<open>https://u.example/api\<close>, a bearer token, the
  intercept host \<open>u.example\<close>, and a policy that lets \<open>GET\<close> through and asks for the rest.
\<close>

definition svc0 :: ServiceConfig where
  "svc0 = \<lparr>sc_upstream = ''https://u.example/api'', sc_auth_type = Bearer,
           sc_auth_token = ''T'', sc_auth_headerName = None, sc_auth_paramName = None,
           sc_policy_default = require_approval,
           sc_policy_rules =
             Some [\<lparr>match_method = Some ''GET'', match_path = None, rule_action = auto_approve\<rparr>],
           sc_hostnames = Some [''u.example'']\<rparr>"

definition cfg0 :: Config where
  "cfg0 = \<lparr>cfg_agentKey = ''K'', cfg_services = [(''svc'', svc0)], cfg_security = sec0,
           cfg_logPayload = False, cfg_adminEnabled = True\<rparr>"

definition st0 :: state where
  "st0 = \<lparr>activeApprovals = Map.empty,
          audit = \<lparr>requests = [], approvals = [], approvals_seq = 0\<rparr>,
          requestCounter = 0, journal = []\<rparr>"

definition ann_1h :: decision where
  "ann_1h = \<lparr>d_approved = True, d_ttlSeconds = 3600, d_approvedBy = ''ann''\<rparr>"

definition env0 :: env where
  "env0 = \<lparr>t_check = 1000, t_decided = 2000, t_done = 3000, race_result = ann_1h,
           upstream_reply = Response 200 [] ''ok''\<rparr>"

section \<open>Reading the order of effects off the journal\<close>

text \<open>The place of the first effect of a kind; the length of the journal when there is none.\<close>

definition position :: "(effect \<Rightarrow> bool) \<Rightarrow> effect list \<Rightarrow> nat" where
  "position P js = length (takeWhile (\<lambda>e. \<not> P e) js)"

definition occurs_before :: "(effect \<Rightarrow> bool) \<Rightarrow> (effect \<Rightarrow> bool) \<Rightarrow> effect list \<Rightarrow> bool" where
  "occurs_before P Q js = (position P js < position Q js)"

fun is_persist :: "string \<Rightarrow> effect \<Rightarrow> bool" where
  "is_persist s (DbLogApproval s' who ttl) = (s' = s)"
| "is_persist s e = False"

fun is_install :: "string \<Rightarrow> effect \<Rightarrow> bool" where
  "is_install s (MapSet s' a) = (s' = s)"
| "is_install s e = False"

fun is_mark :: "string \<Rightarrow> effect \<Rightarrow> bool" where
  "is_mark s (DbRevoke s') = (s' = s)"
| "is_mark s e = False"

fun is_drop :: "string \<Rightarrow> effect \<Rightarrow> bool" where
  "is_drop s (MapDelete s') = (s' = s)"
| "is_drop s e = False"

text \<open>The grant and the row that an approval \<open>result\<close> at the instant \<open>now'\<close> gives.\<close>

definition granted :: "string \<Rightarrow> int \<Rightarrow> decision \<Rightarrow> Approval" where
  "granted service now' result =
     \<lparr>ap_service = service, ap_approvedAt = Some now',
      ap_expiresAt = Some (now' + d_ttlSeconds result * 1000),
      ap_approvedBy = d_approvedBy result\<rparr>"

definition granted_row :: "nat \<Rightarrow> string \<Rightarrow> int \<Rightarrow> decision \<Rightarrow> approval_row" where
  "granted_row i service now' result =
     \<lparr>row_id = i, row_timestamp = toISOString now', row_service = service,
      row_approved_by = d_approvedBy result, row_ttl_seconds = d_ttlSeconds result,
      row_expires_at = toISOString (now' + d_ttlSeconds result * 1000), row_revoked = False\<rparr>"

text \<open>The state after \<open>ann\<close> has approved a \<open>POST\<close> to \<open>svc\<close> for one hour.\<close>

definition st_granted :: state where
  "st_granted =
     snd (checkApproval ''svc'' svc0 ''POST'' ''/x'' ''10.1.1.1'' 1000 2000 ann_1h st0)"

section \<open>Concrete requests\<close>

text \<open>
  \<open>GET /svc/x/y?z=1\<close> on the path-prefix route, with the agent key and a placeholder
  \<open>Authorization\<close> header, as an SDK on the agent sends one.
\<close>

definition req_path :: request where
  "req_path =
     \<lparr>req_method = ''GET'', req_originalUrl = ''/svc/x/y?z=1'', req_pathname = ''/svc/x/y'',
      req_service = ''svc'', req_param_error = False,
      req_headers = [(''host'', Str ''gw.local:9090''), (''x-clawguard-key'', Str ''K''),
                     (''authorization'', Str ''Bearer dummy''), (''accept'', Str ''*/*'')],
      req_ip = ''10.1.1.1'', req_body = []\<rparr>"

text \<open>\<open>GET /svc?x=1\<close>: nothing but a query after the service name.\<close>

definition req_query_only :: request where
  "req_query_only =
     \<lparr>req_method = ''GET'', req_originalUrl = ''/svc?x=1'', req_pathname = ''/svc'',
      req_service = ''svc'', req_param_error = False,
      req_headers = [(''host'', Str ''gw.local:9090''), (''x-clawguard-key'', Str ''K'')],
      req_ip = ''10.1.1.1'', req_body = []\<rparr>"

text \<open>
  \<open>GET /x?z=1\<close> with \<open>Host: u.example\<close>, keyed by the legacy header. Its path has the first
  segment \<open>x\<close>, which the router takes for the service parameter.
\<close>

definition req_host :: request where
  "req_host =
     \<lparr>req_method = ''GET'', req_originalUrl = ''/x?z=1'', req_pathname = ''/x'',
      req_service = ''x'', req_param_error = False,
      req_headers = [(''host'', Str ''u.example''), (''x-agentgate-key'', Str ''K'')],
      req_ip = ''10.1.1.1'', req_body = []\<rparr>"

text \<open>\<open>GET /?z=1\<close> with \<open>Host: u.example\<close>: no first segment, so there is no service parameter.\<close>

definition req_host_root :: request where
  "req_host_root =
     \<lparr>req_method = ''GET'', req_originalUrl = ''/?z=1'', req_pathname = ''/'',
      req_service = [], req_param_error = False,
      req_headers = [(''host'', Str ''u.example''), (''x-agentgate-key'', Str ''K'')],
      req_ip = ''10.1.1.1'', req_body = []\<rparr>"

text \<open>
  Requests without any agent key: for a service that is not configured, for the root
  with a host that is not configured, for the configured service, for the root with the
  configured host, and for the name \<open>constructor\<close>, which no configuration lists.
\<close>

definition req_nokey :: request where
  "req_nokey =
     \<lparr>req_method = ''GET'', req_originalUrl = ''/nosuch/x'', req_pathname = ''/nosuch/x'',
      req_service = ''nosuch'', req_param_error = False,
      req_headers = [(''host'', Str ''other.example'')],
      req_ip = ''10.1.1.1'', req_body = []\<rparr>"

definition req_nokey_host :: request where
  "req_nokey_host =
     \<lparr>req_method = ''GET'', req_originalUrl = ''/'', req_pathname = ''/'',
      req_service = [], req_param_error = False,
      req_headers = [(''host'', Str ''other.example'')],
      req_ip = ''10.1.1.1'', req_body = []\<rparr>"

definition req_nokey_known :: request where
  "req_nokey_known =
     \<lparr>req_method = ''GET'', req_originalUrl = ''/svc/x'', req_pathname = ''/svc/x'',
      req_service = ''svc'', req_param_error = False,
      req_headers = [(''host'', Str ''u.example'')],
      req_ip = ''10.1.1.1'', req_body = []\<rparr>"

definition req_nokey_known_host :: request where
  "req_nokey_known_host =
     \<lparr>req_method = ''GET'', req_originalUrl = ''/'', req_pathname = ''/'',
      req_service = [], req_param_error = False,
      req_headers = [(''host'', Str ''u.example'')],
      req_ip = ''10.1.1.1'', req_body = []\<rparr>"

definition req_nokey_inherited :: request where
  "req_nokey_inherited =
     \<lparr>req_method = ''GET'', req_originalUrl = ''/constructor/x'',
      req_pathname = ''/constructor/x'', req_service = ''constructor'', req_param_error = False,
      req_headers = [(''host'', Str ''gw.local:9090'')],
      req_ip = ''10.1.1.1'', req_body = []\<rparr>"

text \<open>
  Two keyed requests whose upstream path \<open>//evil.example/x\<close> opens an authority and so swings
  the host: \<open>GET //evil.example/x\<close> with \<open>Host: u.example\<close> for the host route, and
  \<open>GET /svc//evil.example/x\<close> for the path-prefix route.
\<close>

definition req_swing_host :: request where
  "req_swing_host =
     \<lparr>req_method = ''GET'', req_originalUrl = ''//evil.example/x'',
      req_pathname = ''//evil.example/x'', req_service = [], req_param_error = False,
      req_headers = [(''host'', Str ''u.example''), (''x-clawguard-key'', Str ''K'')],
      req_ip = ''10.1.1.1'', req_body = []\<rparr>"

definition req_swing_path :: request where
  "req_swing_path =
     \<lparr>req_method = ''GET'', req_originalUrl = ''/svc//evil.example/x'',
      req_pathname = ''/svc//evil.example/x'', req_service = ''svc'', req_param_error = False,
      req_headers = [(''host'', Str ''gw.local:9090''), (''x-clawguard-key'', Str ''K'')],
      req_ip = ''10.1.1.1'', req_body = []\<rparr>"

text \<open>
  A keyed request on the path-prefix route whose upstream path \<open>//u.example:9999/x\<close> opens an
  authority with the host of the upstream and another port.
\<close>

definition req_port_swing :: request where
  "req_port_swing =
     \<lparr>req_method = ''GET'', req_originalUrl = ''/svc//u.example:9999/x'',
      req_pathname = ''/svc//u.example:9999/x'', req_service = ''svc'', req_param_error = False,
      req_headers = [(''host'', Str ''gw.local:9090''), (''x-clawguard-key'', Str ''K'')],
      req_ip = ''10.1.1.1'', req_body = []\<rparr>"

section \<open>The construction of an address as the specification words it\<close>




text \<open>The address \<open>https://u.example/x/y?z=1\<close> as a record.\<close>

definition url0 :: url where
  "url0 = \<lparr>u_scheme = ''https'', u_username = [], u_password = [], u_hostname = ''u.example'',
           u_port = None, u_path = [''x'', ''y''], u_query = Some ''z=1'', u_fragment = None\<rparr>"

section \<open>The header shaping as the specification words it\<close>

text \<open>A header name that the gateway keeps to itself: the vendor prefixes and \<open>Host\<close>.\<close>

definition stripped :: "string \<Rightarrow> bool" where
  "stripped k =
     (startsWith (toLowerCase k) ''x-clawguard'' \<or> startsWith (toLowerCase k) ''x-agentgate'' \<or>
      toLowerCase k = ''host'')"

text \<open>The header that carries the service credential, if the recipe uses one.\<close>

definition cred_key :: "ServiceConfig \<Rightarrow> string option" where
  "cred_key sc =
     (if sc_auth_type sc = Bearer then Some ''authorization''
      else if sc_auth_type sc = Header \<and> truthy (sc_auth_headerName sc) then sc_auth_headerName sc
      else None)"

definition cred_value :: "ServiceConfig \<Rightarrow> string" where
  "cred_value sc =
     (if sc_auth_type sc = Bearer then ''Bearer '' @ sc_auth_token sc else sc_auth_token sc)"

section \<open>Address ranges\<close>

text \<open>
  The first 16-bit group of an IPv6 literal, and the two ranges that are cut out by its
  leading bits: \<open>fc00::/7\<close> fixes seven bits, \<open>fe80::/10\<close> ten.
\<close>

definition hex_val :: "char \<Rightarrow> nat" where
  "hex_val c =
     (if is_digit c then of_char c - 48
      else if CHR ''a'' \<le> c \<and> c \<le> CHR ''f'' then of_char c - 87
      else of_char c - 55)"

definition first_group :: "string \<Rightarrow> nat" where
  "first_group ip = foldl (\<lambda>n c. 16 * n + hex_val c) 0 (takeWhile (\<lambda>c. c \<noteq> CHR '':'') ip)"

definition in_fc00_7 :: "string \<Rightarrow> bool" where
  "in_fc00_7 ip = (first_group ip div 2 ^ 9 = 0xfc00 div 2 ^ 9)"

definition in_fe80_10 :: "string \<Rightarrow> bool" where
  "in_fe80_10 ip = (first_group ip div 2 ^ 6 = 0xfe80 div 2 ^ 6)"

definition sec_block :: SecurityConfig where
  "sec_block = \<lparr>allowedUpstreams = [], blockPrivateIPs = True, followRedirects = False,
                 maxPayloadLogSize = 0\<rparr>"


section \<open>Facts about the primitives\<close>

lemma array_some_iff: "array_some P xs \<longleftrightarrow> (\<exists>x \<in> set xs. P x)"
  by (induction xs) auto

lemma endsWith_iff: "endsWith s t \<longleftrightarrow> (\<exists>p. s = p @ t)"
proof
  assume "endsWith s t"
  then have "s = take (length s - length t) s @ t"
    unfolding endsWith_def by (metis append_take_drop_id)
  then show "\<exists>p. s = p @ t" ..
next
  assume "\<exists>p. s = p @ t"
  then show "endsWith s t"
    unfolding endsWith_def by auto
qed


section \<open>The allowlist check\<close>

text \<open>
  Claim C7. For every hostname and allowlist, the allowlist check passes exactly when the
  allowlist is empty or some entry \<open>E\<close> equals the hostname or the hostname ends with a dot
  followed by \<open>E\<close>. With the entry \<open>example.com\<close>, the host \<open>api.example.com\<close> passes and
  \<open>evilexample.com\<close> does not.
\<close>

theorem isAllowedUpstream_iff:
  "(isAllowedUpstream hostname allowed \<longleftrightarrow>
      allowed = [] \<or> (\<exists>E \<in> set allowed. hostname = E \<or> (\<exists>p. hostname = p @ ''.'' @ E)))
   \<and> isAllowedUpstream ''api.example.com'' [''example.com'']
   \<and> \<not> isAllowedUpstream ''evilexample.com'' [''example.com'']"
proof (intro conjI)
  show "isAllowedUpstream hostname allowed \<longleftrightarrow>
      allowed = [] \<or> (\<exists>E \<in> set allowed. hostname = E \<or> (\<exists>p. hostname = p @ ''.'' @ E))"
    by (simp add: isAllowedUpstream_def array_some_iff endsWith_iff)
  show "isAllowedUpstream ''api.example.com'' [''example.com'']"
    by (simp add: isAllowedUpstream_def endsWith_def)
  show "\<not> isAllowedUpstream ''evilexample.com'' [''example.com'']"
    by (simp add: isAllowedUpstream_def endsWith_def)
qed

section \<open>Hydration at start-up\<close>

lemma dedupe_acc: "dedupe seen acc rows = acc @ dedupe seen [] rows"
proof (induction rows arbitrary: seen acc)
  case Nil
  then show ?case by simp
next
  case (Cons row rows)
  show ?case
  proof (cases "row_service row \<in> seen")
    case True
    then show ?thesis using Cons.IH[of seen acc] by simp
  next
    case False
    then show ?thesis
      using Cons.IH[of "insert (row_service row) seen" "acc @ [row_approval row]"]
        Cons.IH[of "insert (row_service row) seen" "[row_approval row]"]
      by simp
  qed
qed

lemma ap_service_row_approval [simp]: "ap_service (row_approval r) = row_service r"
  by (simp add: row_approval_def)

lemma dedupe_find:
  "find (\<lambda>a. ap_service a = s) (dedupe seen [] rows) =
     (if s \<in> seen then None else map_option row_approval (find (\<lambda>r. row_service r = s) rows))"
proof (induction rows arbitrary: seen)
  case Nil
  then show ?case by simp
next
  case (Cons row rows)
  show ?case
  proof (cases "row_service row \<in> seen")
    case True
    then show ?thesis using Cons.IH[of seen] by auto
  next
    case False
    have "dedupe seen [] (row # rows) = row_approval row # dedupe (insert (row_service row) seen) [] rows"
      using False dedupe_acc[of "insert (row_service row) seen" "[row_approval row]" rows] by simp
    then show ?thesis using False Cons.IH[of "insert (row_service row) seen"] by auto
  qed
qed

lemma dedupe_services:
  "distinct (map ap_service (dedupe seen [] rows)) \<and>
   set (map ap_service (dedupe seen [] rows)) \<inter> seen = {}"
proof (induction rows arbitrary: seen)
  case Nil
  then show ?case by simp
next
  case (Cons row rows)
  show ?case
  proof (cases "row_service row \<in> seen")
    case True
    then show ?thesis using Cons.IH[of seen] by simp
  next
    case False
    have "dedupe seen [] (row # rows) = row_approval row # dedupe (insert (row_service row) seen) [] rows"
      using False dedupe_acc[of "insert (row_service row) seen" "[row_approval row]" rows] by simp
    then show ?thesis using False Cons.IH[of "insert (row_service row) seen"] by auto
  qed
qed

lemma find_append_list:
  "find P (xs @ ys) = (case find P xs of None \<Rightarrow> find P ys | Some x \<Rightarrow> Some x)"
  by (induction xs) auto

lemma activeApprovals_map_set:
  "activeApprovals (map_set k a st) s = (if s = k then Some a else activeApprovals st s)"
  by (simp add: map_set_def)

lemma fold_map_set_lookup:
  "activeApprovals (fold (\<lambda>approval. map_set (ap_service approval) approval) xs st) s =
     (case find (\<lambda>a. ap_service a = s) (rev xs) of
        None \<Rightarrow> activeApprovals st s
      | Some a \<Rightarrow> Some a)"
proof (induction xs arbitrary: st)
  case Nil
  then show ?case by simp
next
  case (Cons x xs)
  have "activeApprovals (fold (\<lambda>approval. map_set (ap_service approval) approval) (x # xs) st) s =
        (case find (\<lambda>a. ap_service a = s) (rev xs) of
           None \<Rightarrow> activeApprovals (map_set (ap_service x) x st) s
         | Some a \<Rightarrow> Some a)"
    using Cons.IH[of "map_set (ap_service x) x st"] by simp
  then show ?case
    by (auto simp: find_append_list activeApprovals_map_set split: option.splits)
qed

lemma find_rev_distinct:
  "distinct (map f xs) \<Longrightarrow> find (\<lambda>a. f a = k) (rev xs) = find (\<lambda>a. f a = k) xs"
proof (induction xs)
  case Nil
  then show ?case by simp
next
  case (Cons x xs)
  then have IH: "find (\<lambda>a. f a = k) (rev xs) = find (\<lambda>a. f a = k) xs" by simp
  show ?case
  proof (cases "f x = k")
    case True
    then have "\<forall>a \<in> set xs. f a \<noteq> k" using Cons.prems by (auto simp: image_iff)
    then have "find (\<lambda>a. f a = k) xs = None" by (simp add: find_None_iff)
    then show ?thesis using True IH by (simp add: find_append_list)
  next
    case False
    then show ?thesis using IH by (simp add: find_append_list split: option.splits)
  qed
qed

lemma find_sorted_desc:
  "sorted_wrt (\<lambda>a b. row_id b \<le> row_id a) xs \<Longrightarrow> find P xs = Some r \<Longrightarrow>
     r \<in> set xs \<and> P r \<and> (\<forall>r' \<in> set xs. P r' \<longrightarrow> row_id r' \<le> row_id r)"
proof (induction xs)
  case Nil
  then show ?case by simp
next
  case (Cons x xs)
  then show ?case by (auto split: if_splits)
qed

lemma select_active_sorted:
  "sorted_wrt (\<lambda>a b. row_id b \<le> row_id a) (select_active now rows)"
proof -
  have "sorted (map row_id (sort_key row_id (filter (\<lambda>r. row_expires_at r > now \<and> \<not> row_revoked r) rows)))"
    by (rule sorted_sort_key)
  then show ?thesis
    unfolding select_active_def by (simp add: sorted_map sorted_wrt_rev)
qed

lemma set_select_active:
  "set (select_active (toISOString now) rows) = {r \<in> set rows. live now r}"
  by (auto simp: select_active_def live_def)

lemma fold_newer_max:
  "fold newer cs c \<in> set (c # cs) \<and> (\<forall>r \<in> set (c # cs). row_id r \<le> row_id (fold newer cs c))"
proof (induction cs arbitrary: c)
  case Nil
  then show ?case by simp
next
  case (Cons x cs)
  show ?case using Cons.IH[of "newer x c"] by (auto simp: newer_def split: if_splits)
qed


lemma journal_fold_map_set:
  "journal (fold (\<lambda>approval. map_set (ap_service approval) approval) xs st) =
     journal st @ map (\<lambda>approval. MapSet (ap_service approval) approval) xs"
proof (induction xs arbitrary: st)
  case Nil
  then show ?case by simp
next
  case (Cons x xs)
  have "journal (map_set (ap_service x) x st) = journal st @ [MapSet (ap_service x) x]"
    by (simp add: map_set_def)
  then show ?case using Cons.IH[of "map_set (ap_service x) x st"] by simp
qed

lemma audit_fold_map_set:
  "audit (fold (\<lambda>approval. map_set (ap_service approval) approval) xs st) = audit st"
  by (induction xs arbitrary: st) (simp_all add: map_set_def)

lemma select_active_delete_expired:
  "select_active now (delete_expired now rows) = select_active now rows"
proof -
  have "filter (\<lambda>r. row_expires_at r > now \<and> \<not> row_revoked r) (filter (\<lambda>r. \<not> row_expires_at r \<le> now) rows)
        = filter (\<lambda>r. row_expires_at r > now \<and> \<not> row_revoked r) rows"
    by (induction rows) auto
  then show ?thesis by (simp add: select_active_def delete_expired_def)
qed

text \<open>The conversion of a row in the store's reader is the grant of the row.\<close>

lemma row_approval_grant_of: "row_approval r = grant_of r"
  by (simp add: row_approval_def grant_of_def)

lemma startup_lookup:
  "activeApprovals (startup now d) s =
     map_option row_approval
       (find (\<lambda>r. row_service r = s) (select_active (toISOString now) (approvals d)))"
proof -
  let ?saved = "dedupe {} [] (select_active (toISOString now) (approvals d))"
  have "activeApprovals (startup now d) s =
          (case find (\<lambda>a. ap_service a = s) (rev ?saved) of None \<Rightarrow> None | Some a \<Rightarrow> Some a)"
    by (simp add: startup_def restoreApprovals_def getActiveApprovals_def Let_def
          fold_map_set_lookup select_active_delete_expired cong: option.case_cong)
  also have "find (\<lambda>a. ap_service a = s) (rev ?saved) = find (\<lambda>a. ap_service a = s) ?saved"
    using dedupe_services[of "{}" "select_active (toISOString now) (approvals d)"]
    by (simp add: find_rev_distinct)
  finally show ?thesis
    by (simp add: dedupe_find split: option.splits)
qed

lemma newest_unique:
  assumes dist: "distinct (map row_id rows)"
    and flt: "filter (\<lambda>r. row_service r = s \<and> live now r) rows = c # cs"
    and fnd: "find (\<lambda>r. row_service r = s) (select_active (toISOString now) rows) = Some r"
  shows "r = fold newer cs c"
proof -
  let ?m = "fold newer cs c"
  have m_in: "?m \<in> set (c # cs)" and m_max: "\<forall>x \<in> set (c # cs). row_id x \<le> row_id ?m"
    using fold_newer_max[of cs c] by simp_all
  have cand: "set (c # cs) = {x \<in> set rows. row_service x = s \<and> live now x}"
    using flt[symmetric] by simp
  from find_sorted_desc[OF select_active_sorted fnd]
  have r_in: "r \<in> set (select_active (toISOString now) rows)" and r_s: "row_service r = s"
    and r_max: "\<forall>x \<in> set (select_active (toISOString now) rows).
                  row_service x = s \<longrightarrow> row_id x \<le> row_id r"
    by simp_all
  have r_cand: "r \<in> set (c # cs)"
    using r_in r_s cand by (simp add: set_select_active)
  have m_sel: "?m \<in> set (select_active (toISOString now) rows)" and m_s: "row_service ?m = s"
    using m_in cand by (auto simp: set_select_active)
  have "row_id r \<le> row_id ?m" using m_max r_cand by blast
  moreover have "row_id ?m \<le> row_id r" using r_max m_sel m_s by blast
  ultimately have "row_id r = row_id ?m" by simp
  moreover have "r \<in> set rows" "?m \<in> set rows" using r_cand m_in cand by auto
  ultimately show ?thesis
    using dist by (meson distinct_map inj_on_def)
qed

lemma startup_view:
  assumes "distinct (map row_id (approvals d))"
  shows "activeApprovals (startup now d) s = grants_view now (approvals d) s"
proof (cases "filter (\<lambda>r. row_service r = s \<and> live now r) (approvals d)")
  case Nil
  then have "\<forall>r \<in> set (approvals d). \<not> (row_service r = s \<and> live now r)"
    by (simp add: filter_empty_conv)
  then have "find (\<lambda>r. row_service r = s) (select_active (toISOString now) (approvals d)) = None"
    by (auto simp: find_None_iff set_select_active)
  then show ?thesis using Nil by (simp add: startup_lookup grants_view_def)
next
  case (Cons c cs)
  then have "c \<in> set (filter (\<lambda>r. row_service r = s \<and> live now r) (approvals d))" by simp
  then have "c \<in> set (select_active (toISOString now) (approvals d))" "row_service c = s"
    by (simp_all add: set_select_active)
  then obtain r where
    fnd: "find (\<lambda>r. row_service r = s) (select_active (toISOString now) (approvals d)) = Some r"
    by (cases "find (\<lambda>r. row_service r = s) (select_active (toISOString now) (approvals d))")
       (auto simp: find_None_iff)
  have "r = fold newer cs c" by (rule newest_unique[OF assms Cons fnd])
  then show ?thesis
    using Cons fnd by (simp add: startup_lookup grants_view_def row_approval_grant_of)
qed

text \<open>The store that the run of the gateway leaves, and the texts of the two clocks.\<close>

lemma db0_rows:
  "approvals db0 =
     [\<lparr>row_id = 1, row_timestamp = ''2026-01-01T10:00:00.000Z'', row_service = ''gh'',
       row_approved_by = ''ann'', row_ttl_seconds = 3600,
       row_expires_at = ''2026-01-01T11:00:00.000Z'', row_revoked = True\<rparr>,
      \<lparr>row_id = 2, row_timestamp = ''2026-01-01T12:00:00.000Z'', row_service = ''gh'',
       row_approved_by = ''bob'', row_ttl_seconds = 86400,
       row_expires_at = ''2026-01-02T12:00:00.000Z'', row_revoked = False\<rparr>,
      \<lparr>row_id = 3, row_timestamp = ''2026-01-01T12:01:00.000Z'', row_service = ''gh'',
       row_approved_by = ''cy'', row_ttl_seconds = 900,
       row_expires_at = ''2026-01-01T12:16:00.000Z'', row_revoked = False\<rparr>,
      \<lparr>row_id = 4, row_timestamp = ''2026-01-01T12:02:00.000Z'', row_service = ''oa'',
       row_approved_by = ''ann'', row_ttl_seconds = 1,
       row_expires_at = ''2026-01-01T12:02:01.000Z'', row_revoked = False\<rparr>,
      \<lparr>row_id = 5, row_timestamp = ''2026-01-01T12:03:00.000Z'', row_service = ''sl'',
       row_approved_by = ''dan'', row_ttl_seconds = 28800,
       row_expires_at = ''2026-01-01T20:03:00.000Z'', row_revoked = False\<rparr>]"
  by code_simp

lemma clock_texts:
  "toISOString t_restart = ''2026-01-01T12:10:00.000Z''"
  "toISOString t_later = ''2026-01-01T12:20:00.000Z''"
  by code_simp+

lemma db0_times:
  "getTime ''2026-01-01T12:00:00.000Z'' = Some 1767268800000"
  "getTime ''2026-01-02T12:00:00.000Z'' = Some 1767355200000"
  "getTime ''2026-01-01T12:01:00.000Z'' = Some 1767268860000"
  "getTime ''2026-01-01T12:16:00.000Z'' = Some 1767269760000"
  "getTime ''2026-01-01T12:03:00.000Z'' = Some 1767268980000"
  "getTime ''2026-01-01T20:03:00.000Z'' = Some 1767297780000"
  by code_simp+

lemma db0_view:
  "grants_view t_restart (approvals db0) ''gh'' =
     Some \<lparr>ap_service = ''gh'', ap_approvedAt = Some 1767268860000,
           ap_expiresAt = Some 1767269760000, ap_approvedBy = ''cy''\<rparr>"
  "grants_view t_restart (approvals db0) ''sl'' =
     Some \<lparr>ap_service = ''sl'', ap_approvedAt = Some 1767268980000,
           ap_expiresAt = Some 1767297780000, ap_approvedBy = ''dan''\<rparr>"
  "grants_view t_restart (approvals db0) ''oa'' = None"
  "grants_view t_later (approvals db0) ''gh'' =
     Some \<lparr>ap_service = ''gh'', ap_approvedAt = Some 1767268800000,
           ap_expiresAt = Some 1767355200000, ap_approvedBy = ''bob''\<rparr>"
  by (simp_all add: grants_view_def db0_rows live_def clock_texts newer_def grant_of_def db0_times)

text \<open>
  Claim C4. Start-up first deletes the persisted approvals whose expiry is not after the
  clock, then loads the remaining rows that are not revoked, newest first, and keeps the
  first row of each service; the journal shows the deletion before the writes to the
  map. The in-memory map then equals the view of the persisted approvals filtered by not
  expired, not revoked and newest per service: an entry of the map comes from a row of its
  service that is not expired and not revoked and has the largest id among those, and it
  has the service and the approver of that row and the two instants that the two texts of
  the row denote. The loaded list names no service twice, and every entry of the map sits
  under its own service. Expiry is the comparison the store makes, of the text of the
  column with the text of the clock.
\<close>

theorem startup_hydration:
  assumes "distinct (map row_id (approvals d))"
  shows "approvals (audit (startup now d)) =
           filter (\<lambda>r. \<not> row_expires_at r \<le> toISOString now) (approvals d)
       \<and> fst (getActiveApprovals now d) =
           dedupe {} []
             (rev (sort_key row_id
                (filter (\<lambda>r. row_expires_at r > toISOString now \<and> \<not> row_revoked r)
                   (approvals (audit (startup now d))))))
       \<and> journal (startup now d) =
           DbDeleteExpired #
             map (\<lambda>approval. MapSet (ap_service approval) approval) (fst (getActiveApprovals now d))
       \<and> activeApprovals (startup now d) = grants_view now (approvals d)
       \<and> (\<forall>s a. activeApprovals (startup now d) s = Some a \<longrightarrow>
             (\<exists>r \<in> set (approvals d).
                row_service r = s \<and> toISOString now < row_expires_at r \<and> \<not> row_revoked r \<and>
                (\<forall>r' \<in> set (approvals d).
                   row_service r' = s \<and> toISOString now < row_expires_at r' \<and> \<not> row_revoked r'
                   \<longrightarrow> row_id r' \<le> row_id r) \<and>
                a = \<lparr>ap_service = s, ap_approvedAt = getTime (row_timestamp r),
                      ap_expiresAt = getTime (row_expires_at r),
                      ap_approvedBy = row_approved_by r\<rparr>))
       \<and> distinct (map ap_service (fst (getActiveApprovals now d)))
       \<and> (\<forall>s a. activeApprovals (startup now d) s = Some a \<longrightarrow> ap_service a = s)"
proof (intro conjI)
  have aud: "audit (startup now d) =
      d\<lparr>approvals := delete_expired (toISOString now) (approvals d)\<rparr>"
    by (simp add: startup_def restoreApprovals_def getActiveApprovals_def Let_def audit_fold_map_set)
  show "approvals (audit (startup now d)) =
          filter (\<lambda>r. \<not> row_expires_at r \<le> toISOString now) (approvals d)"
    by (simp add: aud delete_expired_def)
  show "fst (getActiveApprovals now d) =
           dedupe {} []
             (rev (sort_key row_id
                (filter (\<lambda>r. row_expires_at r > toISOString now \<and> \<not> row_revoked r)
                   (approvals (audit (startup now d))))))"
    by (simp add: aud getActiveApprovals_def Let_def select_active_def)
  show "journal (startup now d) =
           DbDeleteExpired #
             map (\<lambda>approval. MapSet (ap_service approval) approval) (fst (getActiveApprovals now d))"
    by (simp add: startup_def restoreApprovals_def getActiveApprovals_def Let_def
          journal_fold_map_set)
  show "activeApprovals (startup now d) = grants_view now (approvals d)"
    using startup_view[OF assms] by (intro ext)
  show "distinct (map ap_service (fst (getActiveApprovals now d)))"
    using dedupe_services[of "{}"] by (simp add: getActiveApprovals_def Let_def)
  show "\<forall>s a. activeApprovals (startup now d) s = Some a \<longrightarrow> ap_service a = s"
  proof (intro allI impI)
    fix s a
    assume "activeApprovals (startup now d) s = Some a"
    then obtain r where
      "find (\<lambda>r. row_service r = s) (select_active (toISOString now) (approvals d)) = Some r"
      and "a = row_approval r"
      by (auto simp: startup_lookup)
    then show "ap_service a = s" by (auto simp: find_Some_iff)
  qed
  show "\<forall>s a. activeApprovals (startup now d) s = Some a \<longrightarrow>
             (\<exists>r \<in> set (approvals d).
                row_service r = s \<and> toISOString now < row_expires_at r \<and> \<not> row_revoked r \<and>
                (\<forall>r' \<in> set (approvals d).
                   row_service r' = s \<and> toISOString now < row_expires_at r' \<and> \<not> row_revoked r'
                   \<longrightarrow> row_id r' \<le> row_id r) \<and>
                a = \<lparr>ap_service = s, ap_approvedAt = getTime (row_timestamp r),
                      ap_expiresAt = getTime (row_expires_at r),
                      ap_approvedBy = row_approved_by r\<rparr>)"
  proof (intro allI impI)
    fix s a
    assume "activeApprovals (startup now d) s = Some a"
    then obtain r where
      fnd: "find (\<lambda>r. row_service r = s) (select_active (toISOString now) (approvals d)) = Some r"
      and a: "a = row_approval r"
      by (auto simp: startup_lookup)
    from find_sorted_desc[OF select_active_sorted fnd]
    have r_in: "r \<in> set (select_active (toISOString now) (approvals d))"
      and r_s: "row_service r = s"
      and r_max: "\<forall>x \<in> set (select_active (toISOString now) (approvals d)).
                    row_service x = s \<longrightarrow> row_id x \<le> row_id r"
      by simp_all
    have "r \<in> set (approvals d)" and "toISOString now < row_expires_at r" and "\<not> row_revoked r"
      using r_in by (simp_all add: set_select_active live_def)
    moreover have "\<forall>r' \<in> set (approvals d).
        row_service r' = s \<and> toISOString now < row_expires_at r' \<and> \<not> row_revoked r'
          \<longrightarrow> row_id r' \<le> row_id r"
      using r_max by (simp add: set_select_active live_def)
    moreover have "a = \<lparr>ap_service = s, ap_approvedAt = getTime (row_timestamp r),
                      ap_expiresAt = getTime (row_expires_at r),
                      ap_approvedBy = row_approved_by r\<rparr>"
      using a r_s by (simp add: row_approval_def)
    ultimately show "\<exists>r \<in> set (approvals d).
                row_service r = s \<and> toISOString now < row_expires_at r \<and> \<not> row_revoked r \<and>
                (\<forall>r' \<in> set (approvals d).
                   row_service r' = s \<and> toISOString now < row_expires_at r' \<and> \<not> row_revoked r'
                   \<longrightarrow> row_id r' \<le> row_id r) \<and>
                a = \<lparr>ap_service = s, ap_approvedAt = getTime (row_timestamp r),
                      ap_expiresAt = getTime (row_expires_at r),
                      ap_approvedBy = row_approved_by r\<rparr>"
      using r_s by blast
  qed
qed

theorem startup_hydration_witness:
  "distinct (map row_id (approvals db0))
   \<and> map row_id (approvals db0) = [1, 2, 3, 4, 5]
   \<and> map row_id (approvals (audit (startup t_restart db0))) = [2, 3, 5]
   \<and> activeApprovals (startup t_restart db0) ''gh'' =
       Some \<lparr>ap_service = ''gh'', ap_approvedAt = Some 1767268860000,
             ap_expiresAt = Some 1767269760000, ap_approvedBy = ''cy''\<rparr>
   \<and> activeApprovals (startup t_restart db0) ''sl'' =
       Some \<lparr>ap_service = ''sl'', ap_approvedAt = Some 1767268980000,
             ap_expiresAt = Some 1767297780000, ap_approvedBy = ''dan''\<rparr>
   \<and> activeApprovals (startup t_restart db0) ''oa'' = None
   \<and> activeApprovals (startup t_later db0) ''gh'' =
       Some \<lparr>ap_service = ''gh'', ap_approvedAt = Some 1767268800000,
             ap_expiresAt = Some 1767355200000, ap_approvedBy = ''bob''\<rparr>"
proof -
  have h: "distinct (map row_id (approvals db0))"
    and ids: "map row_id (approvals db0) = [1, 2, 3, 4, 5]"
    by (simp_all add: db0_rows)
  have f: "map row_id (filter (\<lambda>r. \<not> row_expires_at r \<le> toISOString t_restart) (approvals db0))
             = [2, 3, 5]"
    by (simp add: db0_rows clock_texts)
  note T = startup_hydration[OF h, of t_restart]
  note T' = startup_hydration[OF h, of t_later]
  have k: "approvals (audit (startup t_restart db0)) =
             filter (\<lambda>r. \<not> row_expires_at r \<le> toISOString t_restart) (approvals db0)"
    using T by (rule conjunct1)
  have m: "activeApprovals (startup t_restart db0) = grants_view t_restart (approvals db0)"
    using T by (rule conjunct1[OF conjunct2[OF conjunct2[OF conjunct2]]])
  have m': "activeApprovals (startup t_later db0) = grants_view t_later (approvals db0)"
    using T' by (rule conjunct1[OF conjunct2[OF conjunct2[OF conjunct2]]])
  show ?thesis
    unfolding k f m m' db0_view using h ids by (intro conjI) simp_all
qed

section \<open>Granting and revoking\<close>

lemma hasActiveApproval_audit: "audit (snd (hasActiveApproval service now st)) = audit st"
  by (simp add: hasActiveApproval_def map_delete_def split: option.splits)

lemma show_nat_1000: "show_nat 1000 = ''1000''"
  by code_simp

lemma show_nat_1: "show_nat (Suc 0) = ''1''"
  by code_simp

lemma st_granted_eq:
  "st_granted =
     \<lparr>activeApprovals = [''svc'' \<mapsto> granted ''svc'' 2000 ann_1h],
      audit = \<lparr>requests = [], approvals = [granted_row 1 ''svc'' 2000 ann_1h], approvals_seq = 1\<rparr>,
      requestCounter = 1,
      journal = [Prompt ''req_1000_1'' ''svc'' ''POST'' ''/x'' ''10.1.1.1'',
                 MapSet ''svc'' (granted ''svc'' 2000 ann_1h),
                 DbLogApproval ''svc'' ''ann'' 3600]\<rparr>"
  by (simp add: st_granted_def checkApproval_def getAction_def svc0_def
        matchesRule_def truthy_def toUpperCase_def upper_char_def hasActiveApproval_def st0_def
        generateRequestId_def ann_1h_def map_set_def audit_logApproval_def logApproval_def
        granted_def granted_row_def Let_def show_nat_1000 show_nat_1)

text \<open>
  The claim that a grant is persisted before it is installed, and that a revocation marks
  the store before it drops the map entry, fails on the journal of one approval and one
  revocation of \<open>svc\<close>: the map is written first both times.
\<close>

theorem grant_order_counterexample:
  "occurs_before (is_install ''svc'') (is_persist ''svc'') (journal st_granted)
   \<and> \<not> occurs_before (is_persist ''svc'') (is_install ''svc'') (journal st_granted)
   \<and> occurs_before (is_drop ''svc'') (is_mark ''svc'')
        (journal (snd (revokeApproval ''svc'' st_granted)))
   \<and> \<not> occurs_before (is_mark ''svc'') (is_drop ''svc'')
        (journal (snd (revokeApproval ''svc'' st_granted)))"
  by (simp add: st_granted_eq occurs_before_def position_def revokeApproval_def
        map_delete_def audit_revokeApprovalInDb_def)


text \<open>
  Claim C9, as the code has it. When a prompted request is approved, the grant is first
  installed in the in-memory map and then persisted, both before \<open>checkApproval\<close> returns
  \<open>true\<close> to the request it authorises; the returned store holds the new row. A revocation
  of a service with an entry in the map first drops the entry and then marks the rows of
  the service in the store.
\<close>

theorem grant_installed_then_persisted:
  "(getAction serviceConfig method path = require_approval \<and>
    \<not> fst (hasActiveApproval service now st) \<and> d_approved result \<longrightarrow>
      fst (checkApproval service serviceConfig method path agentIp now now' result st)
      \<and> journal (snd (checkApproval service serviceConfig method path agentIp now now' result st)) =
          journal (snd (hasActiveApproval service now st)) @
            [Prompt (fst (generateRequestId now (snd (hasActiveApproval service now st))))
               service method path agentIp,
             MapSet service (granted service now' result),
             DbLogApproval service (d_approvedBy result) (d_ttlSeconds result)]
      \<and> activeApprovals (snd (checkApproval service serviceConfig method path agentIp now now' result st))
          service = Some (granted service now' result)
      \<and> approvals (audit (snd (checkApproval service serviceConfig method path agentIp now now' result st))) =
          approvals (audit st) @ [granted_row (approvals_seq (audit st) + 1) service now' result])
   \<and> (activeApprovals st service \<noteq> None \<longrightarrow>
      fst (revokeApproval service st)
      \<and> journal (snd (revokeApproval service st)) = journal st @ [MapDelete service, DbRevoke service]
      \<and> activeApprovals (snd (revokeApproval service st)) service = None
      \<and> audit (snd (revokeApproval service st)) = revokeApprovalInDb service (audit st))"
proof (intro conjI impI)
  assume a: "getAction serviceConfig method path = require_approval \<and>
    \<not> fst (hasActiveApproval service now st) \<and> d_approved result"
  obtain st1 where h: "hasActiveApproval service now st = (False, st1)"
    using a by (cases "hasActiveApproval service now st") auto
  have aud: "audit st1 = audit st"
    using hasActiveApproval_audit[of service now st] h by simp
  have out: "checkApproval service serviceConfig method path agentIp now now' result st =
        (True, audit_logApproval service (d_approvedBy result) (d_ttlSeconds result) now'
           (map_set service (granted service now' result)
              ((snd (generateRequestId now st1))\<lparr>journal := journal st1 @
                 [Prompt (fst (generateRequestId now st1)) service method path agentIp]\<rparr>)))"
    using a h by (simp add: checkApproval_def granted_def generateRequestId_def Let_def)
  show "fst (checkApproval service serviceConfig method path agentIp now now' result st)"
    by (simp add: out)
  show "journal (snd (checkApproval service serviceConfig method path agentIp now now' result st)) =
          journal (snd (hasActiveApproval service now st)) @
            [Prompt (fst (generateRequestId now (snd (hasActiveApproval service now st))))
               service method path agentIp,
             MapSet service (granted service now' result),
             DbLogApproval service (d_approvedBy result) (d_ttlSeconds result)]"
    by (simp add: out h audit_logApproval_def map_set_def)
  show "activeApprovals (snd (checkApproval service serviceConfig method path agentIp now now' result st))
          service = Some (granted service now' result)"
    by (simp add: out audit_logApproval_def map_set_def)
  show "approvals (audit (snd (checkApproval service serviceConfig method path agentIp now now' result st))) =
          approvals (audit st) @ [granted_row (approvals_seq (audit st) + 1) service now' result]"
    by (simp add: out audit_logApproval_def map_set_def generateRequestId_def logApproval_def
          granted_row_def aud)
next
  assume "activeApprovals st service \<noteq> None"
  then have out: "revokeApproval service st =
      (True, audit_revokeApprovalInDb service (map_delete service st))"
    by (simp add: revokeApproval_def)
  show "fst (revokeApproval service st)" by (simp add: out)
  show "journal (snd (revokeApproval service st)) = journal st @ [MapDelete service, DbRevoke service]"
    by (simp add: out audit_revokeApprovalInDb_def map_delete_def)
  show "activeApprovals (snd (revokeApproval service st)) service = None"
    by (simp add: out audit_revokeApprovalInDb_def map_delete_def)
  show "audit (snd (revokeApproval service st)) = revokeApprovalInDb service (audit st)"
    by (simp add: out audit_revokeApprovalInDb_def map_delete_def)
qed



theorem grant_installed_then_persisted_witness:
  "getAction svc0 ''POST'' ''/x'' = require_approval
   \<and> \<not> fst (hasActiveApproval ''svc'' 1000 st0)
   \<and> d_approved ann_1h
   \<and> journal (snd (checkApproval ''svc'' svc0 ''POST'' ''/x'' ''10.1.1.1'' 1000 2000 ann_1h st0)) =
       [Prompt ''req_1000_1'' ''svc'' ''POST'' ''/x'' ''10.1.1.1'',
        MapSet ''svc'' (granted ''svc'' 2000 ann_1h),
        DbLogApproval ''svc'' ''ann'' 3600]
   \<and> approvals (audit (snd (checkApproval ''svc'' svc0 ''POST'' ''/x'' ''10.1.1.1'' 1000 2000 ann_1h st0))) =
       [granted_row 1 ''svc'' 2000 ann_1h]
   \<and> activeApprovals st_granted ''svc'' \<noteq> None
   \<and> journal (snd (revokeApproval ''svc'' st_granted)) =
       journal st_granted @ [MapDelete ''svc'', DbRevoke ''svc'']
   \<and> activeApprovals (snd (revokeApproval ''svc'' st_granted)) ''svc'' = None"
proof -
  have h1: "getAction svc0 ''POST'' ''/x'' = require_approval"
    by (simp add: getAction_def svc0_def matchesRule_def truthy_def toUpperCase_def upper_char_def)
  have h2: "\<not> fst (hasActiveApproval ''svc'' 1000 st0)"
    by (simp add: hasActiveApproval_def st0_def)
  have h3: "d_approved ann_1h" by (simp add: ann_1h_def)
  have h4: "activeApprovals st_granted ''svc'' \<noteq> None" by (simp add: st_granted_eq)
  have g: "fst (generateRequestId 1000 (snd (hasActiveApproval ''svc'' 1000 st0))) = ''req_1000_1''"
    by (simp add: generateRequestId_def hasActiveApproval_def st0_def show_nat_1000 show_nat_1)
  have j: "journal (snd (hasActiveApproval ''svc'' 1000 st0)) = []"
    by (simp add: hasActiveApproval_def st0_def)
  have a: "approvals (audit st0) = [] \<and> approvals_seq (audit st0) = 0" by (simp add: st0_def)
  have d: "d_approvedBy ann_1h = ''ann'' \<and> d_ttlSeconds ann_1h = 3600" by (simp add: ann_1h_def)
  note T1 = grant_installed_then_persisted
         [of svc0 "''POST''" "''/x''" "''svc''" 1000 st0 ann_1h "''10.1.1.1''" 2000]
  note T2 = grant_installed_then_persisted
         [of svc0 "''POST''" "''/x''" "''svc''" 1000 st_granted ann_1h "''10.1.1.1''" 2000]
  have c1: "journal (snd (checkApproval ''svc'' svc0 ''POST'' ''/x'' ''10.1.1.1'' 1000 2000 ann_1h st0)) =
       journal (snd (hasActiveApproval ''svc'' 1000 st0)) @
         [Prompt (fst (generateRequestId 1000 (snd (hasActiveApproval ''svc'' 1000 st0))))
            ''svc'' ''POST'' ''/x'' ''10.1.1.1'',
          MapSet ''svc'' (granted ''svc'' 2000 ann_1h),
          DbLogApproval ''svc'' (d_approvedBy ann_1h) (d_ttlSeconds ann_1h)]"
    and c2: "approvals (audit (snd (checkApproval ''svc'' svc0 ''POST'' ''/x'' ''10.1.1.1'' 1000 2000 ann_1h st0))) =
       approvals (audit st0) @ [granted_row (approvals_seq (audit st0) + 1) ''svc'' 2000 ann_1h]"
    using T1 h1 h2 h3 by blast+
  have c3: "journal (snd (revokeApproval ''svc'' st_granted)) =
       journal st_granted @ [MapDelete ''svc'', DbRevoke ''svc'']"
    and c4: "activeApprovals (snd (revokeApproval ''svc'' st_granted)) ''svc'' = None"
    using T2 h4 by blast+
  have c1': "journal (snd (checkApproval ''svc'' svc0 ''POST'' ''/x'' ''10.1.1.1'' 1000 2000 ann_1h st0)) =
       [Prompt ''req_1000_1'' ''svc'' ''POST'' ''/x'' ''10.1.1.1'',
        MapSet ''svc'' (granted ''svc'' 2000 ann_1h),
        DbLogApproval ''svc'' ''ann'' 3600]"
    unfolding c1 by (simp add: g j d)
  have c2': "approvals (audit (snd (checkApproval ''svc'' svc0 ''POST'' ''/x'' ''10.1.1.1'' 1000 2000 ann_1h st0))) =
       [granted_row 1 ''svc'' 2000 ann_1h]"
    unfolding c2 by (simp add: a)
  show ?thesis
    using h1 h2 h3 h4 c1' c2' c3 c4 by (intro conjI)
qed

section \<open>Revocation in the store\<close>

lemma revoke_rows:
  "\<forall>r \<in> set (approvals (revokeApprovalInDb s d)). row_service r = s \<longrightarrow> row_revoked r"
proof (intro ballI impI)
  fix r
  assume mem: "r \<in> set (approvals (revokeApprovalInDb s d))" and rs: "row_service r = s"
  define f where "f = (\<lambda>r::approval_row. if row_service r = s \<and> \<not> row_revoked r then r\<lparr>row_revoked := True\<rparr> else r)"
  have "approvals (revokeApprovalInDb s d) = map f (approvals d)"
    by (simp add: revokeApprovalInDb_def f_def)
  then obtain r0 where r: "r = f r0"
    using mem by auto
  show "row_revoked r"
  proof (cases "row_service r0 = s \<and> \<not> row_revoked r0")
    case True
    then have "r = r0\<lparr>row_revoked := True\<rparr>" unfolding r f_def by simp
    then show ?thesis by simp
  next
    case False
    then have "r = r0" unfolding r f_def by simp
    then show ?thesis using False rs by blast
  qed
qed

lemma revoke_ids:
  "map row_id (approvals (revokeApprovalInDb s d)) = map row_id (approvals d)"
proof -
  have "map row_id (map (\<lambda>r. if row_service r = s \<and> \<not> row_revoked r then r\<lparr>row_revoked := True\<rparr> else r) rows)
     = map row_id rows" for rows
    by (induction rows) auto
  then show ?thesis by (simp add: revokeApprovalInDb_def)
qed
lemma startup_none_if_revoked:
  assumes "\<forall>r \<in> set (approvals d'). row_service r = s \<longrightarrow> row_revoked r"
  shows "activeApprovals (startup now' d') s = None"
proof -
  have "\<forall>r \<in> set (select_active (toISOString now') (approvals d')). row_service r \<noteq> s"
    using assms by (auto simp: set_select_active live_def)
  then have "find (\<lambda>r. row_service r = s) (select_active (toISOString now') (approvals d')) = None"
    by (simp add: find_None_iff)
  then show ?thesis by (simp add: startup_lookup)
qed

text \<open>Without an entry in the map, \<open>revokeApproval\<close> leaves map and store as they are.\<close>

lemma revokeApproval_without_entry:
  "activeApprovals st s = None \<Longrightarrow> revokeApproval s st = (False, st)"
  by (simp add: revokeApproval_def)

text \<open>
  Claim C10. Revoking in the store marks every row of the service that is not yet revoked,
  the older ones as well as the newest, and leaves the ids alone. So no start-up over a
  store whose rows for the service all come from the store after the revocation restores
  a grant for it, at any instant. \<open>revokeApproval\<close> runs that update whenever the map holds
  an entry for the service.
\<close>

theorem revoke_marks_every_row:
  "(\<forall>r \<in> set (approvals (revokeApprovalInDb s d)). row_service r = s \<longrightarrow> row_revoked r)
   \<and> map row_id (approvals (revokeApprovalInDb s d)) = map row_id (approvals d)
   \<and> (\<forall>(d'::audit_db) now'.
        (\<forall>r \<in> set (approvals d'). row_service r = s \<longrightarrow> r \<in> set (approvals (revokeApprovalInDb s d)))
        \<longrightarrow> activeApprovals (startup now' d') s = None)
   \<and> (activeApprovals st s \<noteq> None \<longrightarrow>
        audit (snd (revokeApproval s st)) = revokeApprovalInDb s (audit st)
        \<and> (\<forall>now'. activeApprovals (startup now' (audit (snd (revokeApproval s st)))) s = None))"
proof (intro conjI allI impI)
  show "\<forall>r \<in> set (approvals (revokeApprovalInDb s d)). row_service r = s \<longrightarrow> row_revoked r"
    by (rule revoke_rows)
  show "map row_id (approvals (revokeApprovalInDb s d)) = map row_id (approvals d)"
    by (rule revoke_ids)
next
  fix d' :: audit_db and now' :: int
  assume "\<forall>r \<in> set (approvals d'). row_service r = s \<longrightarrow> r \<in> set (approvals (revokeApprovalInDb s d))"
  then have "\<forall>r \<in> set (approvals d'). row_service r = s \<longrightarrow> row_revoked r"
    using revoke_rows[of s d] by blast
  then show "activeApprovals (startup now' d') s = None"
    by (rule startup_none_if_revoked)
next
  assume "activeApprovals st s \<noteq> None"
  then show a: "audit (snd (revokeApproval s st)) = revokeApprovalInDb s (audit st)"
    by (simp add: revokeApproval_def audit_revokeApprovalInDb_def map_delete_def)
  fix now'
  show "activeApprovals (startup now' (audit (snd (revokeApproval s st)))) s = None"
    unfolding a by (rule startup_none_if_revoked[OF revoke_rows])
qed



theorem revoke_marks_every_row_witness:
  "map (\<lambda>r. (row_id r, row_service r, row_revoked r)) (approvals db0) =
     [(1, ''gh'', True), (2, ''gh'', False), (3, ''gh'', False), (4, ''oa'', False),
      (5, ''sl'', False)]
   \<and> map (\<lambda>r. (row_id r, row_service r, row_revoked r)) (approvals (revokeApprovalInDb ''gh'' db0)) =
     [(1, ''gh'', True), (2, ''gh'', True), (3, ''gh'', True), (4, ''oa'', False),
      (5, ''sl'', False)]
   \<and> activeApprovals (startup t_restart db0) ''gh'' \<noteq> None
   \<and> activeApprovals
        (startup t_later (audit (snd (revokeApproval ''gh'' (startup t_restart db0))))) ''gh'' = None"
proof -
  have r0: "map (\<lambda>r. (row_id r, row_service r, row_revoked r)) (approvals db0) =
     [(1, ''gh'', True), (2, ''gh'', False), (3, ''gh'', False), (4, ''oa'', False),
      (5, ''sl'', False)]"
    by (simp add: db0_rows)
  have r1: "map (\<lambda>r. (row_id r, row_service r, row_revoked r)) (approvals (revokeApprovalInDb ''gh'' db0)) =
     [(1, ''gh'', True), (2, ''gh'', True), (3, ''gh'', True), (4, ''oa'', False),
      (5, ''sl'', False)]"
    by (simp add: db0_rows revokeApprovalInDb_def)
  have "distinct (map row_id (approvals db0))" by (simp add: db0_rows)
  then have "activeApprovals (startup t_restart db0) ''gh'' =
      grants_view t_restart (approvals db0) ''gh''"
    by (rule startup_view)
  then have h: "activeApprovals (startup t_restart db0) ''gh'' \<noteq> None"
    by (simp add: db0_view)
  from revoke_marks_every_row[of "''gh''" db0 "startup t_restart db0"] h
  have "activeApprovals
          (startup t_later (audit (snd (revokeApproval ''gh'' (startup t_restart db0))))) ''gh'' = None"
    by blast
  then show ?thesis using r0 r1 h by (intro conjI)
qed

section \<open>The route table\<close>









lemma no_segment_shape:
  "startsWith p ''/'' \<Longrightarrow> \<not> has_service_segment p \<longleftrightarrow> p = ''/'' \<or> startsWith p ''//''"
  by (cases p; cases "tl p") (auto simp: startsWith_def has_service_segment_def)

lemma service_route_handler:
  "route_of config req = ServiceRoute \<Longrightarrow> \<not> req_param_error req \<Longrightarrow>
     createProxy config req e st = handleProxy config req e st"
  by (simp add: createProxy_def)

lemma host_route_handler:
  "route_of config req = HostRoute \<Longrightarrow>
     createProxy config req e st = handleHostProxy config req e st"
  by (simp add: createProxy_def)

lemma routes_of_requests:
  "route_of cfg0 req_path = ServiceRoute \<and> route_of cfg0 req_query_only = ServiceRoute
   \<and> route_of cfg0 req_host = ServiceRoute \<and> route_of cfg0 req_host_root = HostRoute
   \<and> route_of cfg0 req_nokey = ServiceRoute \<and> route_of cfg0 req_nokey_host = HostRoute
   \<and> route_of cfg0 req_nokey_known = ServiceRoute \<and> route_of cfg0 req_nokey_known_host = HostRoute
   \<and> route_of cfg0 req_nokey_inherited = ServiceRoute
   \<and> route_of cfg0 req_swing_host = HostRoute \<and> route_of cfg0 req_swing_path = ServiceRoute
   \<and> route_of cfg0 req_port_swing = ServiceRoute"
  by code_simp

section \<open>Construction of the upstream address\<close>













section \<open>The identity check\<close>










section \<open>The guard on the constructed address\<close>

lemma ssrf_block_path_mode:
  assumes "\<not> startsWith (req_service req) ''__''"
    and "services_get config (req_service req) = Own sc"
    and "agentKey_of req = Some (Str (cfg_agentKey config))"
    and "new_URL_base (upstreamPath_of (req_service req) req) (sc_upstream sc) = Some u"
    and "\<not> valid (validateRuntimeUrl (href u) (sc_upstream sc) (cfg_security config))"
  shows "fst (handleProxy config req e st) = Json 403 ''Request blocked by security policy''"
    and "requests (audit (snd (handleProxy config req e st))) =
           requests (audit st) @
             [audit_entry (t_check e) (req_service req) req (upstreamPath_of (req_service req) req)
                False 403 None None]"
  using assms
  by (simp_all add: handleProxy_def Let_def audit_logRequest_def logRequest_def audit_entry_def
        or_null_def)

lemma ssrf_block_host_mode:
  assumes "resolveServiceByHost (req_header req ''host'') (cfg_services config) = Some (name, sc)"
    and "agentKey_of req = Some (Str (cfg_agentKey config))"
    and "new_URL_base (if req_originalUrl req = [] then ''/'' else req_originalUrl req)
           (sc_upstream sc) = Some u"
    and "\<not> valid (validateRuntimeUrl (href u) (sc_upstream sc) (cfg_security config))"
  shows "handleHostProxy config req e st = (Json 403 ''Request blocked by security policy'', st)"
  using assms by (simp add: handleHostProxy_def Let_def)

text \<open>
  The router gives the request \<open>GET //evil.example/x\<close> to the host handler and the request
  \<open>GET /svc//evil.example/x\<close> to the path-prefix handler.
\<close>

lemma swing_requests_routed:
  "createProxy cfg0 req_swing_host e st = handleHostProxy cfg0 req_swing_host e st
   \<and> createProxy cfg0 req_swing_path e st = handleProxy cfg0 req_swing_path e st"
proof -
  have "route_of cfg0 req_swing_host = HostRoute" and "route_of cfg0 req_swing_path = ServiceRoute"
    using routes_of_requests by blast+
  moreover have "\<not> req_param_error req_swing_path" by (simp add: req_swing_path_def)
  ultimately show ?thesis
    by (simp add: service_route_handler host_route_handler)
qed

text \<open>
  Claim C3 on the host route. The keyed request \<open>GET //evil.example/x\<close> with
  \<open>Host: u.example\<close> builds the address \<open>https://evil.example/x\<close>, the guard rejects it, and the
  client gets 403, but the host handler writes no audit row. The path-prefix handler, on
  the request \<open>GET /svc//evil.example/x\<close> with the same upstream path, answers 403 and writes
  the one row with \<open>approved = false\<close> and status 403.
\<close>

theorem host_mode_block_unaudited:
  "agentKey_of req_swing_host = Some (Str (cfg_agentKey cfg0))
   \<and> map_option href (new_URL_base (req_originalUrl req_swing_host) (sc_upstream svc0)) =
       Some ''https://evil.example/x''
   \<and> \<not> valid (validateRuntimeUrl ''https://evil.example/x'' (sc_upstream svc0) (cfg_security cfg0))
   \<and> fst (handleHostProxy cfg0 req_swing_host env0 st0) =
       Json 403 ''Request blocked by security policy''
   \<and> requests (audit (snd (handleHostProxy cfg0 req_swing_host env0 st0))) = []
   \<and> fst (handleProxy cfg0 req_swing_path env0 st0) =
       Json 403 ''Request blocked by security policy''
   \<and> requests (audit (snd (handleProxy cfg0 req_swing_path env0 st0))) =
       [audit_entry 1000 ''svc'' req_swing_path ''//evil.example/x'' False 403 None None]"
  by code_simp

section \<open>Header shaping\<close>

lemma copy_headers_lookup:
  "distinct (map fst hs) \<Longrightarrow>
     copy_headers hs fh k =
       (case map_of hs k of
          None \<Rightarrow> fh k
        | Some v \<Rightarrow> if stripped k then fh k else Some (hv_string v))"
proof (induction hs arbitrary: fh)
  case Nil
  then show ?case by simp
next
  case (Cons p rest)
  obtain key v where p: "p = (key, v)" by (cases p)
  have d: "distinct (map fst rest)" and nk: "key \<notin> fst ` set rest"
    using Cons.prems p by simp_all
  have none: "map_of rest key = None"
    using nk by (simp add: map_of_eq_None_iff)
  define fh' where "fh' = (if stripped key then fh else fh(key \<mapsto> hv_string v))"
  have step: "copy_headers (p # rest) fh = copy_headers rest fh'"
    unfolding p fh'_def by (simp add: stripped_def Let_def)
  have ih: "copy_headers rest fh' k =
       (case map_of rest k of
          None \<Rightarrow> fh' k
        | Some w \<Rightarrow> if stripped k then fh' k else Some (hv_string w))"
    by (rule Cons.IH[OF d])
  show ?case
  proof (cases "k = key")
    case True
    have "copy_headers (p # rest) fh k = fh' key"
      using step ih none True by simp
    also have "fh' key = (if stripped key then fh key else Some (hv_string v))"
      by (simp add: fh'_def)
    finally show ?thesis using True p by simp
  next
    case False
    have "fh' k = fh k" using False by (simp add: fh'_def)
    then have "copy_headers (p # rest) fh k =
       (case map_of rest k of
          None \<Rightarrow> fh k
        | Some w \<Rightarrow> if stripped k then fh k else Some (hv_string w))"
      using step ih by (simp split: option.splits)
    then show ?thesis using False p by simp
  qed
qed

lemma host_searchParams_set: "host (searchParams_set name v u) = host u"
  by (simp add: searchParams_set_def host_def)

lemma shape_request_host: "host (snd (shape_request sc req u)) = host u"
  by (simp add: shape_request_def inject_auth_def host_searchParams_set split: prod.splits)

lemma forwardHeaders_lookup:
  "forwardHeaders sc req u k =
     (if k = ''host'' then Some (host u)
      else if cred_key sc = Some k then Some (cred_value sc)
      else copy_headers (req_headers req) Map.empty k)"
proof -
  have "sc_auth_type sc = Bearer \<or> sc_auth_type sc = Header \<or> sc_auth_type sc = Query"
    by (cases "sc_auth_type sc") simp_all
  then show ?thesis
    by (auto simp: forwardHeaders_def shape_request_def inject_auth_def cred_key_def
          cred_value_def host_searchParams_set truthy_def split: option.splits)
qed

text \<open>
  The claim that every incoming header outside the gateway's own is forwarded unchanged
  fails for the header the credential recipe writes: an incoming \<open>authorization\<close> header
  is not stripped, and under a bearer recipe it reaches the upstream with the service
  token in place of the value the agent sent.
\<close>

theorem forwarded_unchanged_counterexample:
  "(''authorization'', Str ''Bearer dummy'') \<in> set (req_headers req_path)
   \<and> \<not> stripped ''authorization''
   \<and> forwardHeaders svc0 req_path url0 ''authorization'' = Some ''Bearer T''
   \<and> forwardHeaders svc0 req_path url0 ''authorization'' \<noteq> Some ''Bearer dummy''"
  by code_simp

text \<open>
  Claim C6, as the code has it. For a request whose header names are distinct: a header
  whose lower-cased name starts with \<open>x-clawguard\<close> or \<open>x-agentgate\<close>, or is \<open>host\<close>, is left out of
  the upstream request, unless it is \<open>host\<close> itself or the header the credential recipe
  names; every other incoming header that the recipe does not name is forwarded with its
  value (several values joined by a comma and a space); \<open>host\<close> is the host of the upstream
  address, which the recipe does not change; the credential header carries the service
  credential, written after the copy and so over any incoming value; and nothing else is
  sent. So the agent key, which arrives only under the vendor prefixes, is not forwarded.
\<close>

theorem header_shaping:
  assumes "distinct (map fst (req_headers req))"
  shows "(\<forall>k. stripped k \<and> k \<noteq> ''host'' \<and> cred_key sc \<noteq> Some k \<longrightarrow>
            forwardHeaders sc req u k = None)
       \<and> (\<forall>k v. (k, v) \<in> set (req_headers req) \<and> \<not> stripped k \<and> cred_key sc \<noteq> Some k \<longrightarrow>
            forwardHeaders sc req u k = Some (hv_string v))
       \<and> forwardHeaders sc req u ''host'' = Some (host u)
       \<and> host (snd (shape_request sc req u)) = host u
       \<and> (\<forall>k. cred_key sc = Some k \<and> k \<noteq> ''host'' \<longrightarrow>
            forwardHeaders sc req u k = Some (cred_value sc))
       \<and> (\<forall>k. forwardHeaders sc req u k \<noteq> None \<longrightarrow>
            k = ''host'' \<or> cred_key sc = Some k \<or>
            (\<exists>v. (k, v) \<in> set (req_headers req) \<and> \<not> stripped k))"
proof (intro conjI allI impI)
  fix k
  assume "stripped k \<and> k \<noteq> ''host'' \<and> cred_key sc \<noteq> Some k"
  then show "forwardHeaders sc req u k = None"
    by (simp add: forwardHeaders_lookup copy_headers_lookup[OF assms] split: option.splits)
next
  fix k v
  assume a: "(k, v) \<in> set (req_headers req) \<and> \<not> stripped k \<and> cred_key sc \<noteq> Some k"
  then have "map_of (req_headers req) k = Some v"
    using assms by simp
  moreover have "k \<noteq> ''host''"
    using a by (auto simp: stripped_def toLowerCase_def lower_char_def)
  ultimately show "forwardHeaders sc req u k = Some (hv_string v)"
    using a by (simp add: forwardHeaders_lookup copy_headers_lookup[OF assms])
next
  show "forwardHeaders sc req u ''host'' = Some (host u)"
    by (simp add: forwardHeaders_lookup)
  show "host (snd (shape_request sc req u)) = host u"
    by (rule shape_request_host)
next
  fix k
  assume "cred_key sc = Some k \<and> k \<noteq> ''host''"
  then show "forwardHeaders sc req u k = Some (cred_value sc)"
    by (simp add: forwardHeaders_lookup)
next
  fix k
  assume a: "forwardHeaders sc req u k \<noteq> None"
  show "k = ''host'' \<or> cred_key sc = Some k \<or>
            (\<exists>v. (k, v) \<in> set (req_headers req) \<and> \<not> stripped k)"
  proof (cases "k = ''host'' \<or> cred_key sc = Some k")
    case True
    then show ?thesis by blast
  next
    case False
    then have "copy_headers (req_headers req) Map.empty k \<noteq> None"
      using a by (simp add: forwardHeaders_lookup)
    then obtain v where "map_of (req_headers req) k = Some v" and "\<not> stripped k"
      by (auto simp: copy_headers_lookup[OF assms] split: option.splits if_splits)
    then show ?thesis by (blast dest: map_of_SomeD)
  qed
qed

lemma req_path_facts:
  "distinct (map fst (req_headers req_path))
   \<and> stripped ''x-clawguard-key'' \<and> cred_key svc0 = Some ''authorization''
   \<and> stripped ''accept'' = False
   \<and> cred_value svc0 = ''Bearer T'' \<and> host url0 = ''u.example''"
  by code_simp

theorem header_shaping_witness:
  "distinct (map fst (req_headers req_path))
   \<and> forwardHeaders svc0 req_path url0 ''x-clawguard-key'' = None
   \<and> forwardHeaders svc0 req_path url0 ''accept'' = Some ''*/*''
   \<and> forwardHeaders svc0 req_path url0 ''host'' = Some ''u.example''
   \<and> forwardHeaders svc0 req_path url0 ''authorization'' = Some ''Bearer T''"
proof -
  have d: "distinct (map fst (req_headers req_path))" using req_path_facts by blast
  have s1: "stripped ''x-clawguard-key''" and s2: "\<not> stripped ''accept''"
    and ck: "cred_key svc0 = Some ''authorization''" and cv: "cred_value svc0 = ''Bearer T''"
    and hu: "host url0 = ''u.example''"
    using req_path_facts by blast+
  note T = header_shaping[OF d, of svc0 url0]
  have m: "(''accept'', Str ''*/*'') \<in> set (req_headers req_path)"
    by (simp add: req_path_def)
  have n1: "''x-clawguard-key'' \<noteq> ''host''" and n2: "Some ''authorization'' \<noteq> Some ''x-clawguard-key''"
    and n3: "Some ''authorization'' \<noteq> Some ''accept''" and n4: "''authorization'' \<noteq> ''host''"
    by simp_all
  from T have t1: "\<forall>k. stripped k \<and> k \<noteq> ''host'' \<and> cred_key svc0 \<noteq> Some k \<longrightarrow>
            forwardHeaders svc0 req_path url0 k = None"
    by (rule conjunct1)
  from T have t2: "\<forall>k v. (k, v) \<in> set (req_headers req_path) \<and> \<not> stripped k \<and> cred_key svc0 \<noteq> Some k \<longrightarrow>
            forwardHeaders svc0 req_path url0 k = Some (hv_string v)"
    by (rule conjunct1[OF conjunct2])
  from T have t3: "forwardHeaders svc0 req_path url0 ''host'' = Some (host url0)"
    by (rule conjunct1[OF conjunct2[OF conjunct2]])
  from T have t5: "\<forall>k. cred_key svc0 = Some k \<and> k \<noteq> ''host'' \<longrightarrow>
            forwardHeaders svc0 req_path url0 k = Some (cred_value svc0)"
    by (rule conjunct1[OF conjunct2[OF conjunct2[OF conjunct2[OF conjunct2]]]])
  have c1: "forwardHeaders svc0 req_path url0 ''x-clawguard-key'' = None"
    using t1 s1 n1 n2 ck by metis
  have "forwardHeaders svc0 req_path url0 ''accept'' = Some (hv_string (Str ''*/*''))"
    using t2 m s2 n3 ck by metis
  then have c2: "forwardHeaders svc0 req_path url0 ''accept'' = Some ''*/*''"
    by (simp add: hv_string_def)
  have c3: "forwardHeaders svc0 req_path url0 ''host'' = Some ''u.example''"
    using t3 hu by simp
  have c4: "forwardHeaders svc0 req_path url0 ''authorization'' = Some ''Bearer T''"
    using t5 ck cv n4 by metis
  show ?thesis using d c1 c2 c3 c4 by (intro conjI)
qed

section \<open>Private addresses\<close>

text \<open>The patterns for IPv4 go by the leading groups of the dotted quad.\<close>

lemma ipv4_patterns:
  "isPrivateIP (''127.'' @ r) \<and> isPrivateIP (''10.'' @ r) \<and> isPrivateIP (''192.168.'' @ r)
   \<and> isPrivateIP (''169.254.'' @ r) \<and> isPrivateIP (''0.'' @ r)"
  by (simp add: isPrivateIP_def PRIVATE_IP_RANGES_def startsWith_def)

lemma show_nat_16_31:
  "show_nat 16 = ''16'' \<and> show_nat 17 = ''17'' \<and> show_nat 18 = ''18'' \<and>
   show_nat 19 = ''19'' \<and> show_nat 20 = ''20'' \<and> show_nat 21 = ''21'' \<and>
   show_nat 22 = ''22'' \<and> show_nat 23 = ''23'' \<and> show_nat 24 = ''24'' \<and>
   show_nat 25 = ''25'' \<and> show_nat 26 = ''26'' \<and> show_nat 27 = ''27'' \<and>
   show_nat 28 = ''28'' \<and> show_nat 29 = ''29'' \<and> show_nat 30 = ''30'' \<and>
   show_nat 31 = ''31''"
  by code_simp

lemma class_b_pattern:
  assumes "16 \<le> n" and "n \<le> 31"
  shows "isPrivateIP (''172.'' @ show_nat n @ ''.'' @ r)"
proof -
  have "n = 16 \<or> n = 17 \<or> n = 18 \<or> n = 19 \<or> n = 20 \<or> n = 21
        \<or> n = 22 \<or> n = 23 \<or> n = 24 \<or> n = 25 \<or> n = 26 \<or> n
        = 27 \<or> n = 28 \<or> n = 29 \<or> n = 30 \<or> n = 31"
    using assms by arith
  then show ?thesis
    using show_nat_16_31
    by (auto simp: isPrivateIP_def PRIVATE_IP_RANGES_def startsWith_def class_b_private_def
          is_digit_def)
qed

lemma ranges_hit:
  "in_fc00_7 ''fd00::1'' \<and> in_fe80_10 ''fe90::1''"
  by (simp add: in_fc00_7_def in_fe80_10_def first_group_def hex_val_def is_digit_def)

lemma patterns_miss:
  "isPrivateIP ''fd00::1'' = False \<and> isPrivateIP ''fe90::1'' = False \<and> isPrivateIP ''[::1]'' = False
   \<and> isPrivateIP ''::1'' \<and> isPrivateIP ''fc00::1'' \<and> isPrivateIP ''fe80::1''"
  by code_simp

lemma guard_lets_through:
  "valid (validateUpstreamUrl ''http://[fd00::1]/'' sec_block)
   \<and> map_option u_hostname (new_URL ''http://[::1]/'') = Some ''[::1]''
   \<and> valid (validateUpstreamUrl ''http://[::1]/'' sec_block)
   \<and> valid (validateUpstreamUrl ''http://127.0.0.1/'' sec_block) = False"
  by code_simp

text \<open>
  Claim C8 at addresses the patterns miss. \<open>fd00::1\<close> lies in \<open>fc00::/7\<close> and \<open>fe90::1\<close> in
  \<open>fe80::/10\<close>, and neither is classified as private: the two patterns match the literal
  prefixes \<open>fc00:\<close> and \<open>fe80:\<close> only. The host name of an address with an IPv6 literal keeps
  its square brackets, so the pattern for \<open>::1\<close> does not match it either, and the guard
  with private-address blocking enabled lets \<open>http://[fd00::1]/\<close> and \<open>http://[::1]/\<close>
  through, while it blocks \<open>http://127.0.0.1/\<close>.
\<close>

theorem private_ranges_missed:
  "in_fc00_7 ''fd00::1'' \<and> \<not> isPrivateIP ''fd00::1''
   \<and> valid (validateUpstreamUrl ''http://[fd00::1]/'' sec_block)
   \<and> in_fe80_10 ''fe90::1'' \<and> \<not> isPrivateIP ''fe90::1''
   \<and> map_option u_hostname (new_URL ''http://[::1]/'') = Some ''[::1]''
   \<and> \<not> isPrivateIP ''[::1]''
   \<and> valid (validateUpstreamUrl ''http://[::1]/'' sec_block)
   \<and> isPrivateIP ''::1'' \<and> isPrivateIP ''fc00::1'' \<and> isPrivateIP ''fe80::1''
   \<and> \<not> valid (validateUpstreamUrl ''http://127.0.0.1/'' sec_block)"
  using ranges_hit patterns_miss guard_lets_through by simp

section \<open>Pending approvals\<close>

text \<open>
  Claim C5 after a deadline. The deadline settles the race of \<open>req_1000_1\<close> as denied by
  \<open>timeout\<close> and leaves the entry of the request in the pending registry. A tap on the
  one-hour button that arrives afterwards finds the entry, invokes its callback, and is
  answered as approved, not as expired, while the request stays denied. When the approver
  answers first, the handler removes the entry and a later tap is answered as expired.
\<close>

theorem late_tap_not_expired:
  "''req_1000_1'' \<in> pendingCallbacks
       (run [RequestApproval ''req_1000_1'' ''prompt'', Deadline ''req_1000_1''] notifier0)
   \<and> race (run [RequestApproval ''req_1000_1'' ''prompt'', Deadline ''req_1000_1''] notifier0)
        ''req_1000_1'' =
       Some \<lparr>d_approved = False, d_ttlSeconds = 0, d_approvedBy = ''timeout''\<rparr>
   \<and> answers (run [RequestApproval ''req_1000_1'' ''prompt'', Deadline ''req_1000_1'', Tap tap_1h]
                 notifier0) = [(''q1'', ''Approved for 1 hour'')]
   \<and> map fst (calls (run [RequestApproval ''req_1000_1'' ''prompt'', Deadline ''req_1000_1'', Tap tap_1h]
                 notifier0)) = [''req_1000_1'']
   \<and> race (run [RequestApproval ''req_1000_1'' ''prompt'', Deadline ''req_1000_1'', Tap tap_1h]
              notifier0) ''req_1000_1'' =
       Some \<lparr>d_approved = False, d_ttlSeconds = 0, d_approvedBy = ''timeout''\<rparr>
   \<and> answers (run [RequestApproval ''req_1000_1'' ''prompt'', Tap tap_1h, TapDone ''req_1000_1'',
                    Deadline ''req_1000_1'', Tap tap_1h] notifier0) =
       [(''q1'', ''Approved for 1 hour''), (''q1'', ''Request expired'')]"
  by code_simp

end
